theory Spec2Isabelle
  imports Complex_Main "HOL-Library.Word"
begin

section \<open>Depth post-processing filter chain\<close>

text \<open>
  \<^verbatim>\<open>filter_options\<close> pairs a librealsense processing block with a name and an
  enabled flag.  The processing block itself (\<^verbatim>\<open>rs2::process_interface::process\<close>)
  belongs to librealsense; it is carried as a function from frames to frames, and the
  frame type is left open.  (A block such as the temporal filter keeps a history of its
  own between frames; that history is only touched when the block is called.)
\<close>

record 'frame filter_options =
  filter_name :: string
  filter_process :: "'frame \<Rightarrow> 'frame"
  is_enabled :: bool

text \<open>
  \<^verbatim>\<open>RealSenseNode::filterFrame\<close>: the range-for over \<^verbatim>\<open>filters\<close>, replacing the
  working frame by the output of every enabled stage, in the order of the vector.
\<close>

fun filterFrame :: "'frame filter_options list \<Rightarrow> 'frame \<Rightarrow> 'frame" where
  "filterFrame [] frame = frame"
| "filterFrame (f # fs) frame =
     filterFrame fs (if is_enabled f then filter_process f frame else frame)"

text \<open>
  The constructor builds the chain in the fixed order depth-to-disparity, spatial,
  temporal, disparity-to-depth, and then clears all four enabled flags.
\<close>

definition constructor_filters ::
  "('frame \<Rightarrow> 'frame) \<Rightarrow> ('frame \<Rightarrow> 'frame) \<Rightarrow> ('frame \<Rightarrow> 'frame) \<Rightarrow> ('frame \<Rightarrow> 'frame)
     \<Rightarrow> 'frame filter_options list" where
  "constructor_filters depth_to_disparity spat_filter temp_filter disparity_to_depth =
     [\<lparr>filter_name = ''Depth_to_Disparity'', filter_process = depth_to_disparity, is_enabled = False\<rparr>,
      \<lparr>filter_name = ''Spatial'', filter_process = spat_filter, is_enabled = False\<rparr>,
      \<lparr>filter_name = ''Temporal'', filter_process = temp_filter, is_enabled = False\<rparr>,
      \<lparr>filter_name = ''Disparity_to_Depth'', filter_process = disparity_to_depth, is_enabled = False\<rparr>]"

section \<open>Numbers\<close>

text \<open>
  The C \<^verbatim>\<open>float\<close> and \<^verbatim>\<open>double\<close> values of the node are represented by real
  numbers: arithmetic is exact, and there is no NaN and no infinity.  \<^verbatim>\<open>ros::Time\<close>
  is represented by its value in seconds (what \<^verbatim>\<open>toSec()\<close> returns and what the
  constructor \<^verbatim>\<open>ros::Time(double)\<close> takes).  The C \<^verbatim>\<open>int\<close> values are
  mathematical integers; image dimensions and pixel indices stay far below the 32-bit
  range.
\<close>

text \<open>
  \<^verbatim>\<open>static_cast<int>(v)\<close> on a floating-point value truncates towards zero.
\<close>

definition static_cast_int :: "real \<Rightarrow> int" where
  "static_cast_int v = (if 0 \<le> v then \<lfloor>v\<rfloor> else \<lceil>v\<rceil>)"

text \<open>
  The conversion of a floating-point value to \<^verbatim>\<open>uint16_t\<close> discards the fraction;
  the result is kept in 16 bits.
\<close>

definition static_cast_uint16 :: "real \<Rightarrow> 16 word" where
  "static_cast_uint16 v = word_of_int (static_cast_int v)"

section \<open>Clock mapping of the frame callback\<close>

text \<open>
  The members \<^verbatim>\<open>_intialize_time_base\<close>, \<^verbatim>\<open>_prev_camera_time_stamp\<close>,
  \<^verbatim>\<open>_ros_time_base\<close> and \<^verbatim>\<open>_camera_time_base\<close> of the node.
\<close>

record clock_state =
  intialize_time_base :: bool
  prev_camera_time_stamp :: real
  ros_time_base :: real
  camera_time_base :: real

text \<open>
  What one invocation of the callback reads from outside: the device timestamp of the
  frame (milliseconds), and the host clock \<^verbatim>\<open>ros::Time::now()\<close> at the two places
  the callback may call it (where the base is recorded, and where the frame is stamped
  when \<^verbatim>\<open>_use_ros_time\<close> is set).
\<close>

record frame_event =
  get_timestamp :: real
  now_at_base :: real
  now_at_stamp :: real

text \<open>
  The first statements of \<^verbatim>\<open>_frame_callback\<close>, up to the computation of the ROS
  timestamp \<^verbatim>\<open>t\<close>.  The result is the updated members and \<^verbatim>\<open>t\<close>.
\<close>

definition frame_callback_time :: "bool \<Rightarrow> clock_state \<Rightarrow> frame_event \<Rightarrow> clock_state \<times> real" where
  "frame_callback_time use_ros_time s frame =
     (let s1 = (if \<not> intialize_time_base s \<or> prev_camera_time_stamp s > get_timestamp frame
                then s\<lparr>intialize_time_base := True,
                       ros_time_base := now_at_base frame,
                       camera_time_base := get_timestamp frame\<rparr>
                else s);
          s2 = s1\<lparr>prev_camera_time_stamp := get_timestamp frame\<rparr>;
          t = (if use_ros_time then now_at_stamp frame
               else ros_time_base s2 + (get_timestamp frame - camera_time_base s2) / 1000)
      in (s2, t))"

text \<open>The timestamps given to a sequence of frames delivered one after the other.\<close>

fun frame_callbacks :: "bool \<Rightarrow> clock_state \<Rightarrow> frame_event list \<Rightarrow> real list" where
  "frame_callbacks use_ros_time s [] = []"
| "frame_callbacks use_ros_time s (frame # frames) =
     (case frame_callback_time use_ros_time s frame of
        (s', t) \<Rightarrow> t # frame_callbacks use_ros_time s' frames)"

section \<open>Calibration data and the librealsense geometry functions\<close>

record rs2_intrinsics =
  width :: int
  height :: int
  ppx :: real
  ppy :: real
  fx :: real
  fy :: real
  coeffs :: "real list"

record rs2_extrinsics =
  rotation :: "real list"
  translation :: "real list"

type_synonym float3 = "real \<times> real \<times> real"
type_synonym float2 = "real \<times> real"

text \<open>
  \<^verbatim>\<open>rs2_deproject_pixel_to_point\<close>, \<^verbatim>\<open>rs2_transform_point_to_point\<close> and
  \<^verbatim>\<open>rs2_project_point_to_pixel\<close> are functions of librealsense, not of this
  node.  The node's functions take them as a parameter.
\<close>

record rsutil =
  rs2_deproject_pixel_to_point :: "rs2_intrinsics \<Rightarrow> float2 \<Rightarrow> real \<Rightarrow> float3"
  rs2_transform_point_to_point :: "rs2_extrinsics \<Rightarrow> float3 \<Rightarrow> float3"
  rs2_project_point_to_pixel :: "rs2_intrinsics \<Rightarrow> float3 \<Rightarrow> float2"

datatype rs2_stream =
  RS2_STREAM_ANY | RS2_STREAM_DEPTH | RS2_STREAM_COLOR | RS2_STREAM_INFRARED
  | RS2_STREAM_FISHEYE | RS2_STREAM_GYRO | RS2_STREAM_ACCEL

type_synonym stream_index_pair = "rs2_stream \<times> int"

text \<open>
  Modelled from the spec: the constants \<^verbatim>\<open>DEPTH\<close> and \<^verbatim>\<open>COLOR\<close> are declared in
  the header \<^verbatim>\<open>realsense_node.h\<close>, which is not part of the sources at hand.  The
  specification describes a stream key as a pair of modality and index and names
  depth-0 and color-0.
\<close>

definition DEPTH :: stream_index_pair where
  "DEPTH = (RS2_STREAM_DEPTH, 0)"

definition COLOR :: stream_index_pair where
  "COLOR = (RS2_STREAM_COLOR, 0)"

section \<open>Aligning depth to another stream\<close>

text \<open>
  One corner of a depth pixel carried into the other image: deproject, transform,
  project, then \<^verbatim>\<open>static_cast<int>(other_pixel[k] + 0.5f)\<close>.
\<close>

definition other_corner ::
  "rsutil \<Rightarrow> rs2_intrinsics \<Rightarrow> rs2_intrinsics \<Rightarrow> rs2_extrinsics \<Rightarrow> float2 \<Rightarrow> real \<Rightarrow> int \<times> int" where
  "other_corner rs from_intrin other_intrin from_to_other from_pixel depth =
     (let from_point = rs2_deproject_pixel_to_point rs from_intrin from_pixel depth;
          other_point = rs2_transform_point_to_point rs from_to_other from_point;
          other_pixel = rs2_project_point_to_pixel rs other_intrin other_point
      in (static_cast_int (fst other_pixel + 0.5), static_cast_int (snd other_pixel + 0.5)))"

text \<open>
  The same corner in the words of the specification, which takes the bounding
  rectangle from the projected corners ``rounding to nearest integer''.  It is
  compared with \<open>other_corner\<close>, the corner of the code.
\<close>

definition spec_nearest_corner ::
  "rsutil \<Rightarrow> rs2_intrinsics \<Rightarrow> rs2_intrinsics \<Rightarrow> rs2_extrinsics \<Rightarrow> float2 \<Rightarrow> real \<Rightarrow> int \<times> int" where
  "spec_nearest_corner rs from_intrin other_intrin from_to_other from_pixel depth =
     (let from_point = rs2_deproject_pixel_to_point rs from_intrin from_pixel depth;
          other_point = rs2_transform_point_to_point rs from_to_other from_point;
          other_pixel = rs2_project_point_to_pixel rs other_intrin other_point
      in (round (fst other_pixel), round (snd other_pixel)))"

text \<open>
  The two innermost loops of \<^verbatim>\<open>alignFrame\<close>: every pixel of the rectangle from
  \<open>(other_x0, other_y0)\<close> to \<open>(other_x1, other_y1)\<close> receives the value \<open>v\<close>.
\<close>

definition write_rect :: "int \<Rightarrow> int \<times> int \<Rightarrow> int \<times> int \<Rightarrow> 16 word \<Rightarrow> 16 word list \<Rightarrow> 16 word list" where
  "write_rect other_width c0 c1 v out =
     fold (\<lambda>y. fold (\<lambda>x p_out. p_out[nat (y * other_width + x) := v]) [fst c0..fst c1])
       [snd c0..snd c1] out"

text \<open>
  The body of the loop over \<open>from_x\<close>, for one source pixel.  \<open>p_from\<close> is the data of
  the source frame and \<open>p_out\<close> the output image, both as 16-bit samples.
\<close>

definition align_pixel ::
  "rsutil \<Rightarrow> real \<Rightarrow> rs2_intrinsics \<Rightarrow> rs2_intrinsics \<Rightarrow> rs2_stream \<Rightarrow> 16 word list
     \<Rightarrow> rs2_extrinsics \<Rightarrow> int \<Rightarrow> int \<Rightarrow> 16 word list \<Rightarrow> 16 word list" where
  "align_pixel rs depth_scale_meters from_intrin other_intrin from_stream_type p_from
       from_to_other from_x from_y p_out =
     (let meter_to_mm = 0.001;
          depth_units = (if from_stream_type = RS2_STREAM_DEPTH then depth_scale_meters else 1);
          from_pixel_index = from_y * width from_intrin + from_x;
          depth = (if from_stream_type = RS2_STREAM_DEPTH
                   then depth_units * real (unat (p_from ! nat from_pixel_index)) else 1)
      in if depth \<noteq> 0 then
           (let c0 = other_corner rs from_intrin other_intrin from_to_other
                       (real_of_int from_x - 0.5, real_of_int from_y - 0.5) depth;
                c1 = other_corner rs from_intrin other_intrin from_to_other
                       (real_of_int from_x + 0.5, real_of_int from_y + 0.5) depth
            in if fst c0 < 0 \<or> snd c0 < 0 \<or> fst c1 \<ge> width other_intrin \<or> snd c1 \<ge> height other_intrin
               then p_out
               else write_rect (width other_intrin) c0 c1
                      (static_cast_uint16
                         (real (unat (p_from ! nat from_pixel_index)) * (depth_units / meter_to_mm)))
                      p_out)
         else p_out)"

text \<open>
  The loop over \<open>from_x\<close> for one row \<open>from_y\<close>.
\<close>

definition align_row ::
  "rsutil \<Rightarrow> real \<Rightarrow> rs2_intrinsics \<Rightarrow> rs2_intrinsics \<Rightarrow> rs2_stream \<Rightarrow> 16 word list
     \<Rightarrow> rs2_extrinsics \<Rightarrow> int \<Rightarrow> 16 word list \<Rightarrow> 16 word list" where
  "align_row rs depth_scale_meters from_intrin other_intrin from_stream_type p_from
       from_to_other from_y p_out =
     fold (\<lambda>from_x. align_pixel rs depth_scale_meters from_intrin other_intrin from_stream_type
                       p_from from_to_other from_x from_y)
       [0..width from_intrin - 1] p_out"

text \<open>
  \<^verbatim>\<open>memset(p_out_frame, blank_color, ...)\<close> with \<^verbatim>\<open>blank_color = 0x00\<close>, on the
  first \<open>n\<close> samples of the output image.
\<close>

definition memset_blank :: "nat \<Rightarrow> 16 word list \<Rightarrow> 16 word list" where
  "memset_blank n out_vec = replicate n 0 @ drop n out_vec"

text \<open>
  \<^verbatim>\<open>RealSenseNode::alignFrame\<close>.  The rows of the source image are distributed over
  threads by OpenMP (\<^verbatim>\<open>#pragma omp parallel for schedule(dynamic)\<close>); \<open>rows\<close> is the
  order in which they are taken, a rearrangement of \<open>0, ..., height - 1\<close>.

  The output image is a sequence of 16-bit samples, which is how the function writes
  it; its caller passes the depth frame's two bytes per pixel.  The result is \<open>None\<close>
  where the C++ function has no defined behaviour or the model does not reach: another
  pixel size, a \<^verbatim>\<open>memset\<close> beyond the output vector, a source frame shorter than its
  intrinsics say.
\<close>

definition alignFrame_rows ::
  "int list \<Rightarrow> rsutil \<Rightarrow> real \<Rightarrow> rs2_intrinsics \<Rightarrow> rs2_intrinsics \<Rightarrow> rs2_stream \<Rightarrow> 16 word list
     \<Rightarrow> nat \<Rightarrow> rs2_extrinsics \<Rightarrow> 16 word list \<Rightarrow> 16 word list option" where
  "alignFrame_rows rows rs depth_scale_meters from_intrin other_intrin from_stream_type p_from
       output_image_bytes_per_pixel from_to_other out_vec =
     (if output_image_bytes_per_pixel \<noteq> 2
         \<or> sort rows \<noteq> [0..height from_intrin - 1]
         \<or> width other_intrin < 0 \<or> height other_intrin < 0
         \<or> length out_vec < nat (height other_intrin * width other_intrin)
         \<or> length p_from < nat (height from_intrin) * nat (width from_intrin)
      then None
      else Some
        (fold (align_row rs depth_scale_meters from_intrin other_intrin from_stream_type p_from
                 from_to_other)
           rows (memset_blank (nat (height other_intrin * width other_intrin)) out_vec)))"

text \<open>The rows taken in their natural order, as a single thread does.\<close>

definition alignFrame ::
  "rsutil \<Rightarrow> real \<Rightarrow> rs2_intrinsics \<Rightarrow> rs2_intrinsics \<Rightarrow> rs2_stream \<Rightarrow> 16 word list
     \<Rightarrow> nat \<Rightarrow> rs2_extrinsics \<Rightarrow> 16 word list \<Rightarrow> 16 word list option" where
  "alignFrame rs depth_scale_meters from_intrin other_intrin from_stream_type p_from
       output_image_bytes_per_pixel from_to_other out_vec =
     alignFrame_rows [0..height from_intrin - 1] rs depth_scale_meters from_intrin other_intrin
       from_stream_type p_from output_image_bytes_per_pixel from_to_other out_vec"

section \<open>Point clouds\<close>

text \<open>
  The part of \<^verbatim>\<open>sensor_msgs::PointCloud2\<close> that the node fills in; \<open>'p\<close> is the
  record stored per point.
\<close>

record 'p PointCloud2 =
  header_stamp :: real
  header_frame_id :: string
  pc_width :: int
  pc_height :: int
  is_dense :: bool
  points :: "'p list"

text \<open>
  The members of the node that the two point cloud functions read, and the messages
  handed to the two publishers so far.  \<^verbatim>\<open>_image[DEPTH].data\<close> is read as 16-bit
  samples and \<^verbatim>\<open>_image[COLOR].data\<close> as bytes.
\<close>

record node_state =
  image_depth16 :: "16 word list"
  image_color :: "8 word list"
  stream_intrinsics :: "stream_index_pair \<Rightarrow> rs2_intrinsics"
  depth_to_other_extrinsics :: "stream_index_pair \<Rightarrow> rs2_extrinsics"
  optical_frame_id :: "stream_index_pair \<Rightarrow> string"
  depth_scale_meters :: real
  pointcloud_xyz_published :: "float3 PointCloud2 list"
  pointcloud_xyzrgb_published :: "(float3 \<times> 8 word \<times> 8 word \<times> 8 word) PointCloud2 list"

text \<open>
  The pixels in the order of the two nested loops \<^verbatim>\<open>for y\<close>, \<^verbatim>\<open>for x\<close>.
\<close>

definition image_pixels :: "rs2_intrinsics \<Rightarrow> (int \<times> int) list" where
  "image_pixels intr =
     concat (map (\<lambda>y. map (\<lambda>x. (x, y)) [0..width intr - 1]) [0..height intr - 1])"

text \<open>
  Both point cloud functions walk the depth image with a pointer that advances by one
  sample per pixel (\<^verbatim>\<open>++image_depth16\<close>) and append one point per pixel
  (\<^verbatim>\<open>++iter_x\<close>).  \<open>None\<close>: the walk leaves the depth image, or the body does.
\<close>

fun fill_points ::
  "(int \<Rightarrow> int \<Rightarrow> 16 word \<Rightarrow> 'p option) \<Rightarrow> (int \<times> int) list \<Rightarrow> 16 word list \<Rightarrow> 'p list option" where
  "fill_points body [] samples = Some []"
| "fill_points body ((x, y) # pixels) [] = None"
| "fill_points body ((x, y) # pixels) (d # samples) =
     (case body x y d of
        None \<Rightarrow> None
      | Some p \<Rightarrow> (case fill_points body pixels samples of
                     None \<Rightarrow> None
                   | Some ps \<Rightarrow> Some (p # ps)))"

text \<open>The body of the loops of \<^verbatim>\<open>publishDepthPCTopic\<close>.\<close>

definition depth_pc_point :: "rsutil \<Rightarrow> rs2_intrinsics \<Rightarrow> real \<Rightarrow> int \<Rightarrow> int \<Rightarrow> 16 word \<Rightarrow> float3" where
  "depth_pc_point rs depth_intrinsics scale x y d =
     (let scaled_depth = real (unat d) * scale;
          depth_pixel = (real_of_int x, real_of_int y);
          depth_point = rs2_deproject_pixel_to_point rs depth_intrinsics depth_pixel scaled_depth
      in if snd (snd depth_point) \<le> 0 then (0, 0, 0) else depth_point)"

text \<open>
  \<^verbatim>\<open>RealSenseNode::publishDepthPCTopic\<close>.  \<^verbatim>\<open>is_frame_arrived.at(DEPTH)\<close> throws
  \<^verbatim>\<open>std::out_of_range\<close> for a key the map does not hold; the function catches it
  and returns.
\<close>

definition publishDepthPCTopic ::
  "rsutil \<Rightarrow> node_state \<Rightarrow> real \<Rightarrow> (stream_index_pair \<rightharpoonup> bool) \<Rightarrow> node_state option" where
  "publishDepthPCTopic rs node t is_frame_arrived =
     (case is_frame_arrived DEPTH of
        None \<Rightarrow> Some node
      | Some arrived \<Rightarrow>
          if \<not> arrived then Some node
          else
            (let depth_intrinsics = stream_intrinsics node DEPTH
             in case fill_points
                       (\<lambda>x y d. Some (depth_pc_point rs depth_intrinsics (depth_scale_meters node) x y d))
                       (image_pixels depth_intrinsics) (image_depth16 node) of
                  None \<Rightarrow> None
                | Some ps \<Rightarrow>
                    Some (node\<lparr>pointcloud_xyz_published :=
                      pointcloud_xyz_published node @
                        [\<lparr>header_stamp = t,
                          header_frame_id = optical_frame_id node DEPTH,
                          pc_width = width depth_intrinsics,
                          pc_height = height depth_intrinsics,
                          is_dense = True,
                          points = ps\<rparr>]\<rparr>)))"

text \<open>
  The body of the loops of \<^verbatim>\<open>publishRgbToDepthPCTopic\<close>: the point and its colour.
  \<open>None\<close>: the colour would be read outside \<open>color_data\<close>.
\<close>

definition rgb_pc_point ::
  "rsutil \<Rightarrow> rs2_intrinsics \<Rightarrow> rs2_intrinsics \<Rightarrow> rs2_extrinsics \<Rightarrow> real \<Rightarrow> 8 word list
     \<Rightarrow> int \<Rightarrow> int \<Rightarrow> 16 word \<Rightarrow> (float3 \<times> 8 word \<times> 8 word \<times> 8 word) option" where
  "rgb_pc_point rs depth_intrinsics color_intrinsics depth2color_extrinsics scale color_data x y d =
     (let scaled_depth = real (unat d) * scale;
          depth_pixel = (real_of_int x, real_of_int y);
          deprojected = rs2_deproject_pixel_to_point rs depth_intrinsics depth_pixel scaled_depth;
          depth_point = (if snd (snd deprojected) \<le> 0 \<or> snd (snd deprojected) > 5
                         then (0, 0, 0) else deprojected);
          color_point = rs2_transform_point_to_point rs depth2color_extrinsics depth_point;
          color_pixel = rs2_project_point_to_pixel rs color_intrinsics color_point
      in if snd color_pixel < 0 \<or> snd color_pixel \<ge> real_of_int (height color_intrinsics)
            \<or> fst color_pixel < 0 \<or> fst color_pixel \<ge> real_of_int (width color_intrinsics)
         then Some (depth_point, 96, 157, 198)
         else
           (let i = static_cast_int (fst color_pixel);
                j = static_cast_int (snd color_pixel);
                offset = i * 3 + j * width color_intrinsics * 3
            in if nat offset + 2 < length color_data
               then Some (depth_point, color_data ! nat offset, color_data ! (nat offset + 1),
                          color_data ! (nat offset + 2))
               else None))"

text \<open>\<^verbatim>\<open>RealSenseNode::publishRgbToDepthPCTopic\<close>.\<close>

definition publishRgbToDepthPCTopic ::
  "rsutil \<Rightarrow> node_state \<Rightarrow> real \<Rightarrow> (stream_index_pair \<rightharpoonup> bool) \<Rightarrow> node_state option" where
  "publishRgbToDepthPCTopic rs node t is_frame_arrived =
     (case is_frame_arrived COLOR of
        None \<Rightarrow> Some node
      | Some color_arrived \<Rightarrow>
          if \<not> color_arrived then Some node
          else
            (case is_frame_arrived DEPTH of
               None \<Rightarrow> Some node
             | Some depth_arrived \<Rightarrow>
                 if \<not> depth_arrived then Some node
                 else
                   (let depth2color_extrinsics = depth_to_other_extrinsics node COLOR;
                        color_intrinsics = stream_intrinsics node COLOR;
                        depth_intrinsics = stream_intrinsics node DEPTH
                    in case fill_points
                              (rgb_pc_point rs depth_intrinsics color_intrinsics depth2color_extrinsics
                                 (depth_scale_meters node) (image_color node))
                              (image_pixels depth_intrinsics) (image_depth16 node) of
                         None \<Rightarrow> None
                       | Some ps \<Rightarrow>
                           Some (node\<lparr>pointcloud_xyzrgb_published :=
                             pointcloud_xyzrgb_published node @
                               [\<lparr>header_stamp = t,
                                 header_frame_id = optical_frame_id node DEPTH,
                                 pc_width = width depth_intrinsics,
                                 pc_height = height depth_intrinsics,
                                 is_dense = True,
                                 points = ps\<rparr>]\<rparr>))))"

section \<open>Health timer\<close>

text \<open>
  \<^verbatim>\<open>ros::Timer\<close> belongs to roscpp.  The record keeps what the node's calls set: the
  period, the one-shot flag, whether the timer is started, and the time at which a
  started timer is next due.  \<^verbatim>\<open>createTimer(period, callback, oneshot, autostart)\<close>
  starts the timer when \<open>autostart\<close> is true; \<^verbatim>\<open>start()\<close> on a started timer does
  nothing; \<^verbatim>\<open>setPeriod(period, reset)\<close> with \<open>reset\<close> true makes the next expiry one
  period from now.  Times are in seconds.
\<close>

record ros_timer =
  timer_period :: real
  timer_oneshot :: bool
  timer_started :: bool
  timer_expiry :: real

definition createTimer :: "real \<Rightarrow> real \<Rightarrow> bool \<Rightarrow> bool \<Rightarrow> ros_timer" where
  "createTimer now period oneshot autostart =
     \<lparr>timer_period = period, timer_oneshot = oneshot, timer_started = autostart,
      timer_expiry = now + period\<rparr>"

definition timer_start :: "real \<Rightarrow> ros_timer \<Rightarrow> ros_timer" where
  "timer_start now tm =
     (if timer_started tm then tm
      else tm\<lparr>timer_started := True, timer_expiry := now + timer_period tm\<rparr>)"

definition timer_setPeriod :: "real \<Rightarrow> real \<Rightarrow> bool \<Rightarrow> ros_timer \<Rightarrow> ros_timer" where
  "timer_setPeriod now period reset tm =
     tm\<lparr>timer_period := period,
        timer_expiry := (if reset then now + period else timer_expiry tm)\<rparr>"

definition timer_due :: "real \<Rightarrow> ros_timer \<Rightarrow> bool" where
  "timer_due now tm \<longleftrightarrow> timer_started tm \<and> timer_expiry tm \<le> now"

text \<open>
  The members of the node that the health timer involves: whether \<^verbatim>\<open>_dev\<close> holds a
  device, \<^verbatim>\<open>depth_callback_timeout_\<close> and \<^verbatim>\<open>depth_callback_timer_\<close>.  \<open>instance\<close>
  is not a member: it numbers the constructions of the node object, to tell a
  reconstructed node from the one it replaces.
\<close>

record health_node =
  dev :: bool
  depth_callback_timeout :: real
  depth_callback_timer :: ros_timer
  instance_number :: nat

text \<open>
  \<^verbatim>\<open>RealSenseNode::setHealthTimers\<close>:
  \<^verbatim>\<open>createTimer(depth_callback_timeout_, reset_this, false, !_dev)\<close>.
\<close>

definition setHealthTimers :: "real \<Rightarrow> health_node \<Rightarrow> health_node" where
  "setHealthTimers now n =
     n\<lparr>depth_callback_timer := createTimer now (depth_callback_timeout n) False (\<not> dev n)\<rparr>"

text \<open>
  What a construction of the node reads from outside: the time, the timeout parameter,
  whether \<^verbatim>\<open>getDevice\<close> finds the device, and whether \<^verbatim>\<open>setupStreams\<close> finds an
  enabled profile for an image sensor (it then starts the sensor and the timer).
\<close>

record construction_env =
  env_now :: real
  env_timeout :: real
  env_device_found :: bool
  env_image_profiles :: bool

text \<open>
  The constructor, as far as the health timer goes: \<^verbatim>\<open>getParameters\<close>,
  \<^verbatim>\<open>getDevice\<close>, \<^verbatim>\<open>setHealthTimers\<close> and, when there is a device,
  \<^verbatim>\<open>publishTopics\<close> with the \<^verbatim>\<open>depth_callback_timer_.start()\<close> of
  \<^verbatim>\<open>setupStreams\<close>.  A device whose product id has no parameter manager is not
  covered.
\<close>

definition RealSenseNode :: "construction_env \<Rightarrow> nat \<Rightarrow> health_node" where
  "RealSenseNode env k =
     (let n = setHealthTimers (env_now env)
                \<lparr>dev = env_device_found env, depth_callback_timeout = env_timeout env,
                 depth_callback_timer =
                   \<lparr>timer_period = 0, timer_oneshot = False, timer_started = False,
                    timer_expiry = 0\<rparr>,
                 instance_number = k\<rparr>
      in if dev n \<and> env_image_profiles env
         then n\<lparr>depth_callback_timer := timer_start (env_now env) (depth_callback_timer n)\<rparr>
         else n)"

text \<open>
  \<^verbatim>\<open>RealSenseNode::resetNode\<close> destroys the node and constructs it again in place.
\<close>

definition resetNode :: "construction_env \<Rightarrow> health_node \<Rightarrow> health_node" where
  "resetNode env n = RealSenseNode env (Suc (instance_number n))"

text \<open>The callback \<^verbatim>\<open>reset_this\<close> of the timer.\<close>

definition reset_this :: "construction_env \<Rightarrow> health_node \<Rightarrow> health_node" where
  "reset_this env n = resetNode env n"

text \<open>
  The first statement of \<^verbatim>\<open>_frame_callback\<close>:
  \<^verbatim>\<open>depth_callback_timer_.setPeriod(depth_callback_timeout_, true)\<close>.
\<close>

definition frame_callback_timer :: "real \<Rightarrow> health_node \<Rightarrow> health_node" where
  "frame_callback_timer now n =
     n\<lparr>depth_callback_timer :=
         timer_setPeriod now (depth_callback_timeout n) True (depth_callback_timer n)\<rparr>"

text \<open>
  The timer queue at the time \<open>env_now env\<close>: a timer that is due runs its callback.
\<close>

definition timer_event :: "construction_env \<Rightarrow> health_node \<Rightarrow> health_node" where
  "timer_event env n =
     (if timer_due (env_now env) (depth_callback_timer n) then reset_this env n else n)"

section \<open>Sample inputs\<close>

text \<open>
  Concrete inputs for the worked examples that accompany the theorems.  \<open>pinhole\<close> is
  an instance of the three librealsense functions: the pinhole camera without
  distortion, with the rotation stored column by column.
\<close>

definition pinhole :: rsutil where
  "pinhole =
     \<lparr>rs2_deproject_pixel_to_point = (\<lambda>intrin pixel depth.
        (depth * ((fst pixel - ppx intrin) / fx intrin),
         depth * ((snd pixel - ppy intrin) / fy intrin),
         depth)),
      rs2_transform_point_to_point = (\<lambda>extrin (x, y, z).
        (rotation extrin ! 0 * x + rotation extrin ! 3 * y + rotation extrin ! 6 * z
           + translation extrin ! 0,
         rotation extrin ! 1 * x + rotation extrin ! 4 * y + rotation extrin ! 7 * z
           + translation extrin ! 1,
         rotation extrin ! 2 * x + rotation extrin ! 5 * y + rotation extrin ! 8 * z
           + translation extrin ! 2)),
      rs2_project_point_to_pixel = (\<lambda>intrin (x, y, z).
        (x / z * fx intrin + ppx intrin, y / z * fy intrin + ppy intrin))\<rparr>"

text \<open>
  A camera of \<open>w\<close> by \<open>h\<close> pixels with unit focal lengths and the principal point in
  the centre of pixel \<open>(0, 0)\<close>; an identity rotation with the translation
  \<open>(tx, 0, 1)\<close>; and a node whose depth and colour streams both have 2 by 1 pixels, the
  colour image holding the pixels \<open>(1, 2, 3)\<close> and \<open>(4, 5, 6)\<close>, with a depth unit of one
  millimetre.
\<close>

definition sample_intrinsics :: "int \<Rightarrow> int \<Rightarrow> rs2_intrinsics" where
  "sample_intrinsics w h =
     \<lparr>width = w, height = h, ppx = 0, ppy = 0, fx = 1, fy = 1, coeffs = [0, 0, 0, 0, 0]\<rparr>"

definition sample_extrinsics :: "real \<Rightarrow> rs2_extrinsics" where
  "sample_extrinsics tx =
     \<lparr>rotation = [1, 0, 0, 0, 1, 0, 0, 0, 1], translation = [tx, 0, 1]\<rparr>"

definition sample_node :: "16 word list \<Rightarrow> real \<Rightarrow> node_state" where
  "sample_node depth tx =
     \<lparr>image_depth16 = depth,
      image_color = [1, 2, 3, 4, 5, 6],
      stream_intrinsics = (\<lambda>s. sample_intrinsics 2 1),
      depth_to_other_extrinsics = (\<lambda>s. sample_extrinsics tx),
      optical_frame_id = (\<lambda>s. ''camera_depth_optical_frame''),
      depth_scale_meters = 1 / 1000,
      pointcloud_xyz_published = [],
      pointcloud_xyzrgb_published = []\<rparr>"

section \<open>Theorems\<close>

subsection \<open>Filter chain\<close>

text \<open>
  C9.  Whatever the stages compute, a chain in which every stage has its enabled flag
  cleared returns the frame it was given: each disabled stage leaves the working frame
  alone, so the whole chain is the identity.
\<close>

theorem filterFrame_all_disabled:
  "(\<forall>f \<in> set filters. \<not> is_enabled f) \<Longrightarrow> filterFrame filters frame = frame"
  by (induction filters arbitrary: frame) simp_all

text \<open>
  The chain the constructor builds, with four stages that would each change a numeric
  frame, returns the frame \<open>7\<close> untouched.
\<close>

theorem filterFrame_all_disabled_witness:
  "filterFrame (constructor_filters (\<lambda>d. d + 1) (\<lambda>d. 2 * d) (\<lambda>d. d - 3) (\<lambda>d. 0)) (7::int) = 7"
  using filterFrame_all_disabled
    [of "constructor_filters (\<lambda>d. d + 1) (\<lambda>d. 2 * d) (\<lambda>d. d - 3) (\<lambda>d. 0)" "7::int"]
  by (simp add: constructor_filters_def)

subsection \<open>Clock mapping\<close>

lemma frame_callbacks_no_rebase:
  "intialize_time_base s \<Longrightarrow> sorted (prev_camera_time_stamp s # map get_timestamp frames) \<Longrightarrow>
   frame_callbacks False s frames =
     map (\<lambda>f. ros_time_base s + (get_timestamp f - camera_time_base s) / 1000) frames"
proof (induction frames arbitrary: s)
  case Nil
  show ?case by simp
next
  case (Cons f fs)
  let ?s' = "s\<lparr>prev_camera_time_stamp := get_timestamp f\<rparr>"
  from Cons.prems have le: "prev_camera_time_stamp s \<le> get_timestamp f" by simp
  with Cons.prems(1) have step:
    "frame_callback_time False s f =
       (?s', ros_time_base s + (get_timestamp f - camera_time_base s) / 1000)"
    by (simp add: frame_callback_time_def Let_def)
  from Cons.prems have "sorted (prev_camera_time_stamp ?s' # map get_timestamp fs)" by simp
  with Cons.IH [of ?s'] Cons.prems(1)
  have "frame_callbacks False ?s' fs =
          map (\<lambda>f. ros_time_base s + (get_timestamp f - camera_time_base s) / 1000) fs"
    by simp
  with step show ?case by simp
qed

lemma frame_callback_time_after:
  assumes "frame_callback_time False s f = (s', t)"
  shows "intialize_time_base s'"
    and "prev_camera_time_stamp s' = get_timestamp f"
    and "t = ros_time_base s' + (get_timestamp f - camera_time_base s') / 1000"
  using assms by (auto simp: frame_callback_time_def Let_def split: if_splits)

lemma frame_callbacks_first:
  assumes "sorted (map get_timestamp (f # fs))"
  shows "frame_callbacks False s (f # fs) =
     map (\<lambda>g. ros_time_base (fst (frame_callback_time False s f))
               + (get_timestamp g - camera_time_base (fst (frame_callback_time False s f))) / 1000)
       (f # fs)"
proof -
  obtain s' t where st: "frame_callback_time False s f = (s', t)"
    by fastforce
  note after = frame_callback_time_after [OF st]
  from assms after(2) have "sorted (prev_camera_time_stamp s' # map get_timestamp fs)"
    by simp
  from frame_callbacks_no_rebase [OF after(1) this] st after(3) show ?thesis
    by simp
qed

lemma sorted_offsets:
  "sorted (map get_timestamp fs) \<Longrightarrow>
   sorted (map (\<lambda>f. b + (get_timestamp f - c) / 1000) fs)"
  by (induction fs) (auto simp: divide_right_mono)

text \<open>
  C2.  With \<^verbatim>\<open>_use_ros_time\<close> false and from any state of the clock members, frames
  whose device timestamps never decrease receive ROS timestamps that never decrease,
  and two consecutive ROS timestamps differ by the difference of the device
  timestamps, divided by 1000 (milliseconds to seconds).
\<close>

theorem frame_callbacks_monotone_same_rate:
  assumes "sorted (map get_timestamp frames)"
  shows "sorted (frame_callbacks False s frames) \<and>
         (\<forall>i. Suc i < length frames \<longrightarrow>
            frame_callbacks False s frames ! Suc i - frame_callbacks False s frames ! i =
              (get_timestamp (frames ! Suc i) - get_timestamp (frames ! i)) / 1000)"
proof (cases frames)
  case Nil
  then show ?thesis by simp
next
  case (Cons f fs)
  let ?b = "ros_time_base (fst (frame_callback_time False s f))"
  let ?c = "camera_time_base (fst (frame_callback_time False s f))"
  let ?m = "map (\<lambda>g. ?b + (get_timestamp g - ?c) / 1000) frames"
  from assms Cons have eq: "frame_callbacks False s frames = ?m"
    using frame_callbacks_first [of f fs s] by simp
  have "sorted ?m"
    using assms by (rule sorted_offsets)
  moreover have "\<forall>i. Suc i < length frames \<longrightarrow>
      ?m ! Suc i - ?m ! i = (get_timestamp (frames ! Suc i) - get_timestamp (frames ! i)) / 1000"
    by (auto simp: diff_divide_distrib)
  ultimately show ?thesis unfolding eq by blast
qed

text \<open>
  Four frames after construction, two of them with the same device timestamp: the ROS
  timestamps are 50, 50, 50.033 and 50.5 seconds.
\<close>

theorem frame_callbacks_monotone_same_rate_witness:
  "frame_callbacks False
     \<lparr>intialize_time_base = False, prev_camera_time_stamp = 0, ros_time_base = 0,
      camera_time_base = 0\<rparr>
     [\<lparr>get_timestamp = 1000, now_at_base = 50, now_at_stamp = 50\<rparr>,
      \<lparr>get_timestamp = 1000, now_at_base = 51, now_at_stamp = 51\<rparr>,
      \<lparr>get_timestamp = 1033, now_at_base = 52, now_at_stamp = 52\<rparr>,
      \<lparr>get_timestamp = 1500, now_at_base = 53, now_at_stamp = 53\<rparr>]
   = [50, 50, 50033 / 1000, 101 / 2]
   \<and> sorted (frame_callbacks False
     \<lparr>intialize_time_base = False, prev_camera_time_stamp = 0, ros_time_base = 0,
      camera_time_base = 0\<rparr>
     [\<lparr>get_timestamp = 1000, now_at_base = 50, now_at_stamp = 50\<rparr>,
      \<lparr>get_timestamp = 1000, now_at_base = 51, now_at_stamp = 51\<rparr>,
      \<lparr>get_timestamp = 1033, now_at_base = 52, now_at_stamp = 52\<rparr>,
      \<lparr>get_timestamp = 1500, now_at_base = 53, now_at_stamp = 53\<rparr>])"
  using frame_callbacks_monotone_same_rate
    [of "[\<lparr>get_timestamp = 1000, now_at_base = 50, now_at_stamp = 50\<rparr>,
          \<lparr>get_timestamp = 1000, now_at_base = 51, now_at_stamp = 51\<rparr>,
          \<lparr>get_timestamp = 1033, now_at_base = 52, now_at_stamp = 52\<rparr>,
          \<lparr>get_timestamp = 1500, now_at_base = 53, now_at_stamp = 53\<rparr>]"
        "\<lparr>intialize_time_base = False, prev_camera_time_stamp = 0, ros_time_base = 0,
          camera_time_base = 0\<rparr>"]
  by (simp add: frame_callback_time_def Let_def)

text \<open>
  C3, as the code has it.  With \<^verbatim>\<open>_use_ros_time\<close> false, a frame whose device
  timestamp is below the previous one re-initialises the base: the frame is stamped
  with the host time read at that call, that host time and the frame's device
  timestamp become the base, and the frames after it, for as long as the device
  timestamps do not decrease again, are stamped with the new host base plus their
  device offset from the new device base.
\<close>

theorem frame_callbacks_rebase:
  assumes "get_timestamp frame < prev_camera_time_stamp s"
      and "sorted (map get_timestamp (frame # later))"
  shows "frame_callbacks False s (frame # later) =
           now_at_base frame #
           map (\<lambda>g. now_at_base frame + (get_timestamp g - get_timestamp frame) / 1000) later
         \<and> ros_time_base (fst (frame_callback_time False s frame)) = now_at_base frame
         \<and> camera_time_base (fst (frame_callback_time False s frame)) = get_timestamp frame"
proof -
  from assms(1) have base:
    "ros_time_base (fst (frame_callback_time False s frame)) = now_at_base frame"
    "camera_time_base (fst (frame_callback_time False s frame)) = get_timestamp frame"
    by (simp_all add: frame_callback_time_def Let_def)
  from frame_callbacks_first [OF assms(2), of s] base show ?thesis
    by simp
qed

text \<open>
  The device clock restarts at 5 ms after 10 ms had been seen, while the host clock
  reads 200 s; the two frames after it are stamped 200.002 and 200.004.
\<close>

theorem frame_callbacks_rebase_witness:
  "frame_callbacks False
     \<lparr>intialize_time_base = True, prev_camera_time_stamp = 10, ros_time_base = 100,
      camera_time_base = 10\<rparr>
     [\<lparr>get_timestamp = 5, now_at_base = 200, now_at_stamp = 200\<rparr>,
      \<lparr>get_timestamp = 7, now_at_base = 300, now_at_stamp = 300\<rparr>,
      \<lparr>get_timestamp = 9, now_at_base = 400, now_at_stamp = 400\<rparr>]
   = [200, 200 + 2 / 1000, 200 + 4 / 1000]"
  using frame_callbacks_rebase
    [of "\<lparr>get_timestamp = 5, now_at_base = 200, now_at_stamp = 200\<rparr>"
        "\<lparr>intialize_time_base = True, prev_camera_time_stamp = 10, ros_time_base = 100,
          camera_time_base = 10\<rparr>"
        "[\<lparr>get_timestamp = 7, now_at_base = 300, now_at_stamp = 300\<rparr>,
          \<lparr>get_timestamp = 9, now_at_base = 400, now_at_stamp = 400\<rparr>]"]
  by simp

text \<open>
  C3 as it is written fails in two ways.  With \<^verbatim>\<open>_use_ros_time\<close> set, the frame after
  a re-initialisation (base 200 s at device time 5 ms) is stamped with the host time of
  its own call, 300, not with 200.002.  With \<^verbatim>\<open>_use_ros_time\<close> false, a later frame
  whose device timestamp decreases again (3 ms after 5 ms) is stamped 300, not
  199.998.
\<close>

theorem frame_callbacks_rebase_counterexample:
  "frame_callbacks True
     \<lparr>intialize_time_base = True, prev_camera_time_stamp = 10, ros_time_base = 100,
      camera_time_base = 10\<rparr>
     [\<lparr>get_timestamp = 5, now_at_base = 200, now_at_stamp = 200\<rparr>,
      \<lparr>get_timestamp = 7, now_at_base = 300, now_at_stamp = 300\<rparr>] ! 1
   \<noteq> 200 + (7 - 5) / 1000
   \<and> frame_callbacks False
     \<lparr>intialize_time_base = True, prev_camera_time_stamp = 10, ros_time_base = 100,
      camera_time_base = 10\<rparr>
     [\<lparr>get_timestamp = 5, now_at_base = 200, now_at_stamp = 200\<rparr>,
      \<lparr>get_timestamp = 3, now_at_base = 300, now_at_stamp = 300\<rparr>] ! 1
   \<noteq> 200 + (3 - 5) / 1000"
  by (simp add: frame_callback_time_def Let_def)

subsection \<open>The order of the pixels and the walk over the depth image\<close>

lemma upto_eq_map_int: "[0..int n - 1] = map int [0..<n]"
proof (induction n)
  case 0
  show ?case by simp
next
  case (Suc n)
  have "[0..int (Suc n) - 1] = [0..int n - 1] @ [int n]"
    using upto_rec2 [of 0 "int n"] by simp
  with Suc show ?case by simp
qed

lemma upto_nat: "[0..w - 1] = map int [0..<nat w]"
proof -
  have "w \<le> 0 \<or> w = int (nat w)" by auto
  then show ?thesis
  proof
    assume "w \<le> 0" then show ?thesis by simp
  next
    assume e: "w = int (nat w)"
    show ?thesis using upto_eq_map_int [of "nat w"] e by simp
  qed
qed

lemma length_concat_rows:
  "length (concat (map (\<lambda>y. map (f y) [0..<w]) [0..<h])) = h * w"
  by (induction h) simp_all

lemma nth_concat_rows:
  "x < w \<Longrightarrow> y < h \<Longrightarrow>
   concat (map (\<lambda>y. map (f y) [0..<w]) [0..<h]) ! (y * w + x) = f y x"
proof (induction h)
  case 0
  then show ?case by simp
next
  case (Suc h)
  show ?case
  proof -
    have "y < h \<or> y = h" using Suc.prems by auto
    then show ?thesis
    proof
      assume yh: "y < h"
      then have "Suc y * w \<le> h * w"
        by (intro mult_le_mono1) simp
      with Suc.prems(1) have "y * w + x < h * w"
        by simp
      with Suc.IH [OF Suc.prems(1) yh] show ?thesis
        by (simp add: nth_append length_concat_rows)
    next
      assume "y = h"
      with Suc.prems(1) show ?thesis
        by (simp add: nth_append length_concat_rows)
    qed
  qed
qed

lemma row_major_less:
  fixes x y w h :: int
  assumes "0 \<le> x" "x < w" "0 \<le> y" "y < h"
  shows "nat (y * w + x) < nat h * nat w"
proof -
  have "y * w + x < y * w + w" using assms by simp
  also have "\<dots> = (y + 1) * w" by (simp add: algebra_simps)
  also have "\<dots> \<le> h * w" using assms by (intro mult_right_mono) auto
  finally have "y * w + x < h * w" .
  moreover have "0 \<le> y * w + x"
    using assms by simp
  moreover have "nat h * nat w = nat (h * w)"
    using assms by (simp add: nat_mult_distrib)
  ultimately show ?thesis by simp
qed

lemma image_pixels_rows:
  "image_pixels intr =
     concat (map (\<lambda>y. map (\<lambda>x. (int x, int y)) [0..<nat (width intr)]) [0..<nat (height intr)])"
  by (simp add: image_pixels_def upto_nat [of "width intr"] upto_nat [of "height intr"]
        comp_def)

lemma length_image_pixels:
  "length (image_pixels intr) = nat (height intr) * nat (width intr)"
  by (simp add: image_pixels_rows length_concat_rows)

lemma nth_image_pixels:
  assumes "0 \<le> x" "x < width intr" "0 \<le> y" "y < height intr"
  shows "image_pixels intr ! nat (y * width intr + x) = (x, y)"
proof -
  have "nat (y * width intr + x) = nat y * nat (width intr) + nat x"
    using assms by (simp add: nat_add_distrib nat_mult_distrib)
  moreover have "nat x < nat (width intr)" "nat y < nat (height intr)"
    using assms by simp_all
  ultimately show ?thesis
    using nth_concat_rows [of "nat x" "nat (width intr)" "nat y" "nat (height intr)"
            "\<lambda>y x. (int x, int y)"] assms
    by (simp add: image_pixels_rows)
qed

lemma fill_points_Some:
  "fill_points body pixels samples = Some ps \<Longrightarrow>
   length ps = length pixels \<and>
   (\<forall>k < length pixels. body (fst (pixels ! k)) (snd (pixels ! k)) (samples ! k) = Some (ps ! k))"
proof (induction body pixels samples arbitrary: ps rule: fill_points.induct)
  case (1 body samples)
  then show ?case by simp
next
  case (2 body x y pixels)
  then show ?case by simp
next
  case (3 body x y pixels d samples)
  from "3.prems" obtain p ps' where p: "body x y d = Some p"
    and r: "fill_points body pixels samples = Some ps'" and ps: "ps = p # ps'"
    by (auto split: option.splits)
  from "3.IH" [OF p r] p ps show ?case
    by (auto simp: nth_Cons split: nat.splits)
qed

lemma fill_points_total:
  "length pixels \<le> length samples \<Longrightarrow>
   (\<forall>k < length pixels. body (fst (pixels ! k)) (snd (pixels ! k)) (samples ! k) \<noteq> None) \<Longrightarrow>
   \<exists>ps. fill_points body pixels samples = Some ps"
proof (induction body pixels samples rule: fill_points.induct)
  case (1 body samples)
  then show ?case by simp
next
  case (2 body x y pixels)
  then show ?case by simp
next
  case (3 body x y pixels d samples)
  from "3.prems"(2) [rule_format, of 0] obtain p where p: "body x y d = Some p" by auto
  have "\<forall>k<length pixels. body (fst (pixels ! k)) (snd (pixels ! k)) (samples ! k) \<noteq> None"
  proof (intro allI impI)
    fix k assume "k < length pixels"
    with "3.prems"(2) [rule_format, of "Suc k"] show
      "body (fst (pixels ! k)) (snd (pixels ! k)) (samples ! k) \<noteq> None" by simp
  qed
  with "3.IH" [OF p] "3.prems"(1) obtain ps where "fill_points body pixels samples = Some ps"
    by auto
  with p show ?case by simp
qed

lemma static_cast_int_in_range:
  assumes "0 \<le> v" "v < real_of_int n"
  shows "0 \<le> static_cast_int v" and "static_cast_int v < n"
  using assms by (simp_all add: static_cast_int_def floor_less_iff)

lemma color_offset_in_range:
  assumes "0 \<le> cx" "cx < real_of_int w" "0 \<le> cy" "cy < real_of_int h"
  shows "nat (static_cast_int cx * 3 + static_cast_int cy * w * 3) + 2 < 3 * (nat h * nat w)"
proof -
  let ?i = "static_cast_int cx" and ?j = "static_cast_int cy"
  have i: "0 \<le> ?i" "?i < w" using assms(1,2) by (rule static_cast_int_in_range)+
  have j: "0 \<le> ?j" "?j < h" using assms(3,4) by (rule static_cast_int_in_range)+
  have "nat (?j * w + ?i) < nat h * nat w"
    using i j by (intro row_major_less) auto
  moreover have "0 \<le> ?j * w + ?i" using i j by simp
  moreover have "?i * 3 + ?j * w * 3 = 3 * (?j * w + ?i)" by (simp add: algebra_simps)
  ultimately show ?thesis
    by (simp add: nat_mult_distrib)
qed

lemma static_cast_int_floor: "0 \<le> v \<Longrightarrow> static_cast_int v = \<lfloor>v\<rfloor>"
  by (simp add: static_cast_int_def)

lemma rgb_pc_point_total:
  assumes "3 * (nat (height color_intrinsics) * nat (width color_intrinsics)) \<le> length color_data"
  shows "rgb_pc_point rs depth_intrinsics color_intrinsics ext scale color_data x y d \<noteq> None"
proof -
  define dp where "dp = rs2_deproject_pixel_to_point rs depth_intrinsics
                          (real_of_int x, real_of_int y) (real (unat d) * scale)"
  define q where "q = (if snd (snd dp) \<le> 0 \<or> snd (snd dp) > 5 then (0, 0, 0) else dp)"
  define cp where "cp = rs2_project_point_to_pixel rs color_intrinsics
                          (rs2_transform_point_to_point rs ext q)"
  define off where "off = static_cast_int (fst cp) * 3
                            + static_cast_int (snd cp) * width color_intrinsics * 3"
  have eq: "rgb_pc_point rs depth_intrinsics color_intrinsics ext scale color_data x y d =
      (if snd cp < 0 \<or> snd cp \<ge> real_of_int (height color_intrinsics)
          \<or> fst cp < 0 \<or> fst cp \<ge> real_of_int (width color_intrinsics)
       then Some (q, 96, 157, 198)
       else if nat off + 2 < length color_data
            then Some (q, color_data ! nat off, color_data ! (nat off + 1),
                       color_data ! (nat off + 2))
            else None)"
    by (simp add: rgb_pc_point_def Let_def dp_def q_def cp_def off_def)
  have "nat off + 2 < length color_data"
    if "0 \<le> fst cp" "fst cp < real_of_int (width color_intrinsics)"
       "0 \<le> snd cp" "snd cp < real_of_int (height color_intrinsics)"
    using color_offset_in_range [OF that] assms unfolding off_def by simp
  then show ?thesis
    unfolding eq by (simp add: not_le not_less del: not_None_eq)
qed

lemma rgb_pc_point_Some:
  fixes rs :: rsutil
  defines "cp \<equiv> (\<lambda>ci ext point.
             rs2_project_point_to_pixel rs ci (rs2_transform_point_to_point rs ext point))"
  assumes some: "rgb_pc_point rs di ci ext scale color_data x y d = Some r"
  shows "fst r =
           (let p = rs2_deproject_pixel_to_point rs di (real_of_int x, real_of_int y)
                      (real (unat d) * scale)
            in if snd (snd p) \<le> 0 \<or> 5 < snd (snd p) then (0, 0, 0) else p)"
    and "snd (cp ci ext (fst r)) < 0 \<or> real_of_int (height ci) \<le> snd (cp ci ext (fst r))
           \<or> fst (cp ci ext (fst r)) < 0 \<or> real_of_int (width ci) \<le> fst (cp ci ext (fst r))
         \<Longrightarrow> snd r = (96, 157, 198)"
    and "0 \<le> snd (cp ci ext (fst r)) \<and> snd (cp ci ext (fst r)) < real_of_int (height ci)
           \<and> 0 \<le> fst (cp ci ext (fst r)) \<and> fst (cp ci ext (fst r)) < real_of_int (width ci)
         \<Longrightarrow> snd r =
               (let off = nat (static_cast_int (fst (cp ci ext (fst r))) * 3
                          + static_cast_int (snd (cp ci ext (fst r))) * width ci * 3)
                in (color_data ! off, color_data ! (off + 1), color_data ! (off + 2)))"
proof -
  define q where "q =
           (let p = rs2_deproject_pixel_to_point rs di (real_of_int x, real_of_int y)
                      (real (unat d) * scale)
            in if snd (snd p) \<le> 0 \<or> 5 < snd (snd p) then (0, 0, 0) else p)"
  define c where "c = cp ci ext q"
  define off where "off = nat (static_cast_int (fst c) * 3 + static_cast_int (snd c) * width ci * 3)"
  have eq: "rgb_pc_point rs di ci ext scale color_data x y d =
      (if snd c < 0 \<or> snd c \<ge> real_of_int (height ci)
          \<or> fst c < 0 \<or> fst c \<ge> real_of_int (width ci)
       then Some (q, 96, 157, 198)
       else if off + 2 < length color_data
            then Some (q, color_data ! off, color_data ! (off + 1), color_data ! (off + 2))
            else None)"
    by (simp add: rgb_pc_point_def Let_def q_def cp_def c_def off_def)
  from some have fst_r: "fst r = q"
    unfolding eq by (auto split: if_splits)
  then show "fst r =
           (let p = rs2_deproject_pixel_to_point rs di (real_of_int x, real_of_int y)
                      (real (unat d) * scale)
            in if snd (snd p) \<le> 0 \<or> 5 < snd (snd p) then (0, 0, 0) else p)"
    by (simp only: q_def)
  from some show "snd r = (96, 157, 198)"
    if "snd (cp ci ext (fst r)) < 0 \<or> real_of_int (height ci) \<le> snd (cp ci ext (fst r))
           \<or> fst (cp ci ext (fst r)) < 0 \<or> real_of_int (width ci) \<le> fst (cp ci ext (fst r))"
    using that unfolding eq fst_r c_def [symmetric] by (auto split: if_splits)
  from some show "snd r =
               (let off = nat (static_cast_int (fst (cp ci ext (fst r))) * 3
                          + static_cast_int (snd (cp ci ext (fst r))) * width ci * 3)
                in (color_data ! off, color_data ! (off + 1), color_data ! (off + 2)))"
    if "0 \<le> snd (cp ci ext (fst r)) \<and> snd (cp ci ext (fst r)) < real_of_int (height ci)
           \<and> 0 \<le> fst (cp ci ext (fst r)) \<and> fst (cp ci ext (fst r)) < real_of_int (width ci)"
    using that unfolding eq fst_r c_def [symmetric] Let_def off_def [symmetric]
    by (auto split: if_splits)
qed

subsection \<open>What the two point cloud functions publish\<close>

lemma publishDepthPCTopic_slots:
  assumes arr: "is_frame_arrived DEPTH = Some True"
      and size: "nat (height (stream_intrinsics node DEPTH)) * nat (width (stream_intrinsics node DEPTH))
                   \<le> length (image_depth16 node)"
  shows "\<exists>ps. publishDepthPCTopic rs node t is_frame_arrived =
            Some (node\<lparr>pointcloud_xyz_published := pointcloud_xyz_published node @
                    [\<lparr>header_stamp = t, header_frame_id = optical_frame_id node DEPTH,
                      pc_width = width (stream_intrinsics node DEPTH),
                      pc_height = height (stream_intrinsics node DEPTH),
                      is_dense = True, points = ps\<rparr>]\<rparr>)
          \<and> length ps = nat (height (stream_intrinsics node DEPTH)) * nat (width (stream_intrinsics node DEPTH))
          \<and> (\<forall>x y. 0 \<le> x \<and> x < width (stream_intrinsics node DEPTH)
                  \<and> 0 \<le> y \<and> y < height (stream_intrinsics node DEPTH) \<longrightarrow>
                ps ! nat (y * width (stream_intrinsics node DEPTH) + x) =
                  depth_pc_point rs (stream_intrinsics node DEPTH) (depth_scale_meters node) x y
                    (image_depth16 node ! nat (y * width (stream_intrinsics node DEPTH) + x)))"
proof -
  let ?di = "stream_intrinsics node DEPTH"
  let ?body = "\<lambda>x y d. Some (depth_pc_point rs ?di (depth_scale_meters node) x y d)"
  from size have "length (image_pixels ?di) \<le> length (image_depth16 node)"
    by (simp add: length_image_pixels)
  from fill_points_total [OF this, of ?body]
  obtain ps where ps: "fill_points ?body (image_pixels ?di) (image_depth16 node) = Some ps"
    by auto
  note some = fill_points_Some [OF ps]
  have "\<forall>x y. 0 \<le> x \<and> x < width ?di \<and> 0 \<le> y \<and> y < height ?di \<longrightarrow>
          ps ! nat (y * width ?di + x) =
            depth_pc_point rs ?di (depth_scale_meters node) x y
              (image_depth16 node ! nat (y * width ?di + x))"
  proof (intro allI impI)
    fix x y assume b: "0 \<le> x \<and> x < width ?di \<and> 0 \<le> y \<and> y < height ?di"
    then have nth: "image_pixels ?di ! nat (y * width ?di + x) = (x, y)"
      by (simp add: nth_image_pixels)
    have "nat (y * width ?di + x) < length (image_pixels ?di)"
      using b row_major_less [of x "width ?di" y "height ?di"]
      by (simp add: length_image_pixels)
    with some nth show "ps ! nat (y * width ?di + x) =
            depth_pc_point rs ?di (depth_scale_meters node) x y
              (image_depth16 node ! nat (y * width ?di + x))"
      by (metis fst_conv snd_conv option.inject)
  qed
  with ps some arr show ?thesis
    by (intro exI [of _ ps]) (simp add: publishDepthPCTopic_def Let_def length_image_pixels)
qed

lemma publishRgbToDepthPCTopic_slots:
  assumes arr: "is_frame_arrived COLOR = Some True" "is_frame_arrived DEPTH = Some True"
      and size: "nat (height (stream_intrinsics node DEPTH)) * nat (width (stream_intrinsics node DEPTH))
                   \<le> length (image_depth16 node)"
      and csize: "3 * (nat (height (stream_intrinsics node COLOR)) * nat (width (stream_intrinsics node COLOR)))
                   \<le> length (image_color node)"
  shows "\<exists>ps. publishRgbToDepthPCTopic rs node t is_frame_arrived =
            Some (node\<lparr>pointcloud_xyzrgb_published := pointcloud_xyzrgb_published node @
                    [\<lparr>header_stamp = t, header_frame_id = optical_frame_id node DEPTH,
                      pc_width = width (stream_intrinsics node DEPTH),
                      pc_height = height (stream_intrinsics node DEPTH),
                      is_dense = True, points = ps\<rparr>]\<rparr>)
          \<and> length ps = nat (height (stream_intrinsics node DEPTH)) * nat (width (stream_intrinsics node DEPTH))
          \<and> (\<forall>x y. 0 \<le> x \<and> x < width (stream_intrinsics node DEPTH)
                  \<and> 0 \<le> y \<and> y < height (stream_intrinsics node DEPTH) \<longrightarrow>
                rgb_pc_point rs (stream_intrinsics node DEPTH) (stream_intrinsics node COLOR)
                    (depth_to_other_extrinsics node COLOR) (depth_scale_meters node)
                    (image_color node) x y
                    (image_depth16 node ! nat (y * width (stream_intrinsics node DEPTH) + x))
                  = Some (ps ! nat (y * width (stream_intrinsics node DEPTH) + x)))"
proof -
  let ?di = "stream_intrinsics node DEPTH"
  let ?body = "rgb_pc_point rs ?di (stream_intrinsics node COLOR)
                 (depth_to_other_extrinsics node COLOR) (depth_scale_meters node) (image_color node)"
  from size have "length (image_pixels ?di) \<le> length (image_depth16 node)"
    by (simp add: length_image_pixels)
  from fill_points_total [OF this, of ?body] rgb_pc_point_total [OF csize]
  obtain ps where ps: "fill_points ?body (image_pixels ?di) (image_depth16 node) = Some ps"
    by blast
  note some = fill_points_Some [OF ps]
  have "\<forall>x y. 0 \<le> x \<and> x < width ?di \<and> 0 \<le> y \<and> y < height ?di \<longrightarrow>
          ?body x y (image_depth16 node ! nat (y * width ?di + x))
            = Some (ps ! nat (y * width ?di + x))"
  proof (intro allI impI)
    fix x y assume b: "0 \<le> x \<and> x < width ?di \<and> 0 \<le> y \<and> y < height ?di"
    then have nth: "image_pixels ?di ! nat (y * width ?di + x) = (x, y)"
      by (simp add: nth_image_pixels)
    have "nat (y * width ?di + x) < length (image_pixels ?di)"
      using b row_major_less [of x "width ?di" y "height ?di"]
      by (simp add: length_image_pixels)
    with some nth show "?body x y (image_depth16 node ! nat (y * width ?di + x))
            = Some (ps ! nat (y * width ?di + x))"
      by (metis fst_conv snd_conv)
  qed
  with ps some arr show ?thesis
    by (intro exI [of _ ps]) (simp add: publishRgbToDepthPCTopic_def Let_def length_image_pixels)
qed

lemma image_pixels_sample: "image_pixels (sample_intrinsics 2 1) = [(0, 0), (1, 0)]"
  by (simp add: image_pixels_def sample_intrinsics_def upto_rec1)

subsection \<open>Depth-only point cloud\<close>

text \<open>
  C6.  When the depth frame has arrived (and the depth image holds a sample for every
  pixel of the depth intrinsics), \<^verbatim>\<open>publishDepthPCTopic\<close> publishes one message.  Its
  width and height are those of the depth intrinsics, it is marked dense, and it holds
  one point per pixel in row-major order: slot \<open>y * width + x\<close> belongs to the depth
  pixel \<open>(x, y)\<close> and to the sample at the same index.  With \<open>p\<close> the deprojection of the
  pixel at its scaled depth, the slot holds the zero vector when the depth coordinate of
  \<open>p\<close> is not positive, and \<open>p\<close> itself, with a positive depth coordinate, otherwise.
  For a deprojection that returns the given depth as the depth coordinate, as the one of
  librealsense does, a raw value of 0 therefore gives the zero vector and a non-zero raw
  value (with a positive depth unit) gives \<open>p\<close>.
\<close>

theorem publishDepthPCTopic_organized:
  fixes node :: node_state and rs :: rsutil
  defines "di \<equiv> stream_intrinsics node DEPTH"
  assumes arr: "is_frame_arrived DEPTH = Some True"
      and size: "nat (height di) * nat (width di) \<le> length (image_depth16 node)"
  shows "\<exists>msg. publishDepthPCTopic rs node t is_frame_arrived =
             Some (node\<lparr>pointcloud_xyz_published := pointcloud_xyz_published node @ [msg]\<rparr>)
           \<and> pc_width msg = width di \<and> pc_height msg = height di \<and> is_dense msg
           \<and> length (points msg) = nat (height di) * nat (width di)
           \<and> (\<forall>x y. 0 \<le> x \<and> x < width di \<and> 0 \<le> y \<and> y < height di \<longrightarrow>
                (let d = image_depth16 node ! nat (y * width di + x);
                     p = rs2_deproject_pixel_to_point rs di (real_of_int x, real_of_int y)
                           (real (unat d) * depth_scale_meters node);
                     slot = points msg ! nat (y * width di + x)
                 in (snd (snd p) \<le> 0 \<longrightarrow> slot = (0, 0, 0))
                  \<and> (0 < snd (snd p) \<longrightarrow> slot = p \<and> 0 < snd (snd slot))
                  \<and> ((\<forall>pixel depth. snd (snd (rs2_deproject_pixel_to_point rs di pixel depth)) = depth) \<longrightarrow>
                       (d = 0 \<longrightarrow> slot = (0, 0, 0))
                     \<and> (d \<noteq> 0 \<and> 0 < depth_scale_meters node \<longrightarrow> slot = p \<and> 0 < snd (snd slot)))))"
proof -
  from publishDepthPCTopic_slots [of is_frame_arrived node rs t] arr size
  obtain ps where pub: "publishDepthPCTopic rs node t is_frame_arrived =
            Some (node\<lparr>pointcloud_xyz_published := pointcloud_xyz_published node @
                    [\<lparr>header_stamp = t, header_frame_id = optical_frame_id node DEPTH,
                      pc_width = width di, pc_height = height di,
                      is_dense = True, points = ps\<rparr>]\<rparr>)"
    and len: "length ps = nat (height di) * nat (width di)"
    and slots: "\<And>x y. 0 \<le> x \<and> x < width di \<and> 0 \<le> y \<and> y < height di \<Longrightarrow>
                ps ! nat (y * width di + x) =
                  depth_pc_point rs di (depth_scale_meters node) x y
                    (image_depth16 node ! nat (y * width di + x))"
    unfolding di_def by blast
  have pos: "0 < real (unat d) * depth_scale_meters node"
    if "d \<noteq> 0" "0 < depth_scale_meters node" for d :: "16 word"
  proof -
    from that(1) have "0 < unat d" by (simp add: unat_gt_0)
    then have "0 < real (unat d)" by (simp only: of_nat_0_less_iff)
    then show ?thesis using that(2) by (rule mult_pos_pos)
  qed
  show ?thesis
    apply (rule exI [of _ "\<lparr>header_stamp = t, header_frame_id = optical_frame_id node DEPTH,
                      pc_width = width di, pc_height = height di,
                      is_dense = True, points = ps\<rparr>"])
    using pub len pos
    apply (simp add: slots depth_pc_point_def Let_def)
    apply (meson not_le)
    done
qed

text \<open>
  A depth image of two pixels with the raw values 0 and 1000: the first slot is the
  origin, the second the point at one metre.
\<close>

theorem publishDepthPCTopic_organized_witness:
  "publishDepthPCTopic pinhole (sample_node [0, 1000] 0) 7 [DEPTH \<mapsto> True] =
     Some ((sample_node [0, 1000] 0)\<lparr>pointcloud_xyz_published :=
       [\<lparr>header_stamp = 7, header_frame_id = ''camera_depth_optical_frame'',
         pc_width = 2, pc_height = 1, is_dense = True,
         points = [(0, 0, 0), (1, 0, 1)]\<rparr>]\<rparr>)
   \<and> (\<forall>pixel depth.
         snd (snd (rs2_deproject_pixel_to_point pinhole
                     (stream_intrinsics (sample_node [0, 1000] 0) DEPTH) pixel depth)) = depth)"
proof -
  have contract: "\<forall>pixel depth.
         snd (snd (rs2_deproject_pixel_to_point pinhole
                     (stream_intrinsics (sample_node [0, 1000] 0) DEPTH) pixel depth)) = depth"
    by (simp add: pinhole_def)
  have arr: "[DEPTH \<mapsto> True] DEPTH = Some True"
    by simp
  have size: "nat (height (stream_intrinsics (sample_node [0, 1000] 0) DEPTH))
                * nat (width (stream_intrinsics (sample_node [0, 1000] 0) DEPTH))
              \<le> length (image_depth16 (sample_node [0, 1000] 0))"
    by (simp add: sample_node_def sample_intrinsics_def)
  have "publishDepthPCTopic pinhole (sample_node [0, 1000] 0) 7 [DEPTH \<mapsto> True] =
     Some ((sample_node [0, 1000] 0)\<lparr>pointcloud_xyz_published :=
       [\<lparr>header_stamp = 7, header_frame_id = ''camera_depth_optical_frame'',
         pc_width = 2, pc_height = 1, is_dense = True,
         points = [(0, 0, 0), (1, 0, 1)]\<rparr>]\<rparr>)"
    by (simp add: publishDepthPCTopic_def sample_node_def image_pixels_sample
          depth_pc_point_def Let_def pinhole_def)
      (simp add: sample_intrinsics_def)
  with contract show ?thesis
    using publishDepthPCTopic_organized
            [of "[DEPTH \<mapsto> True]" "sample_node [0, 1000] 0" pinhole 7, OF arr size]
    by (simp only: simp_thms)
qed

subsection \<open>Colour-fused point cloud\<close>

text \<open>
  C4.  When the colour and the depth frame have arrived (and both images are as large
  as their intrinsics say), \<^verbatim>\<open>publishRgbToDepthPCTopic\<close> publishes one message.  With
  \<open>p\<close> the deprojection of a depth pixel at its scaled depth: when the depth coordinate
  of \<open>p\<close> is not positive or exceeds 5, the point in the pixel's slot is the zero
  vector, whatever its colour; for the other pixels it is \<open>p\<close>.  When the projection
  of the emitted point into the colour image lies outside the colour frame, the colour
  in the slot is \<open>(96, 157, 198)\<close>.  The depth-only cloud of the same node keeps a point
  whose depth coordinate exceeds 5.
\<close>

theorem publishRgbToDepthPCTopic_clipping:
  fixes node :: node_state and rs :: rsutil
  defines "di \<equiv> stream_intrinsics node DEPTH"
      and "ci \<equiv> stream_intrinsics node COLOR"
      and "ext \<equiv> depth_to_other_extrinsics node COLOR"
  assumes arr: "is_frame_arrived COLOR = Some True" "is_frame_arrived DEPTH = Some True"
      and size: "nat (height di) * nat (width di) \<le> length (image_depth16 node)"
      and csize: "3 * (nat (height ci) * nat (width ci)) \<le> length (image_color node)"
  shows "\<exists>msg xyz.
           publishRgbToDepthPCTopic rs node t is_frame_arrived =
             Some (node\<lparr>pointcloud_xyzrgb_published := pointcloud_xyzrgb_published node @ [msg]\<rparr>)
         \<and> publishDepthPCTopic rs node t is_frame_arrived =
             Some (node\<lparr>pointcloud_xyz_published := pointcloud_xyz_published node @ [xyz]\<rparr>)
         \<and> (\<forall>x y. 0 \<le> x \<and> x < width di \<and> 0 \<le> y \<and> y < height di \<longrightarrow>
              (let k = nat (y * width di + x);
                   p = rs2_deproject_pixel_to_point rs di (real_of_int x, real_of_int y)
                         (real (unat (image_depth16 node ! k)) * depth_scale_meters node);
                   color_pixel = rs2_project_point_to_pixel rs ci
                                   (rs2_transform_point_to_point rs ext (fst (points msg ! k)))
               in (snd (snd p) \<le> 0 \<or> 5 < snd (snd p) \<longrightarrow> fst (points msg ! k) = (0, 0, 0))
                \<and> (0 < snd (snd p) \<and> snd (snd p) \<le> 5 \<longrightarrow> fst (points msg ! k) = p)
                \<and> (snd color_pixel < 0 \<or> real_of_int (height ci) \<le> snd color_pixel
                      \<or> fst color_pixel < 0 \<or> real_of_int (width ci) \<le> fst color_pixel \<longrightarrow>
                    snd (points msg ! k) = (96, 157, 198))
                \<and> (5 < snd (snd p) \<longrightarrow> points xyz ! k = p)))"
proof -
  from publishRgbToDepthPCTopic_slots [of is_frame_arrived node rs t] arr size csize
  obtain ps where pub: "publishRgbToDepthPCTopic rs node t is_frame_arrived =
            Some (node\<lparr>pointcloud_xyzrgb_published := pointcloud_xyzrgb_published node @
                    [\<lparr>header_stamp = t, header_frame_id = optical_frame_id node DEPTH,
                      pc_width = width di, pc_height = height di,
                      is_dense = True, points = ps\<rparr>]\<rparr>)"
    and slots: "\<And>x y. 0 \<le> x \<and> x < width di \<and> 0 \<le> y \<and> y < height di \<Longrightarrow>
                rgb_pc_point rs di ci ext (depth_scale_meters node) (image_color node) x y
                    (image_depth16 node ! nat (y * width di + x))
                  = Some (ps ! nat (y * width di + x))"
    unfolding di_def ci_def ext_def by blast
  from publishDepthPCTopic_slots [of is_frame_arrived node rs t] arr size
  obtain qs where pub': "publishDepthPCTopic rs node t is_frame_arrived =
            Some (node\<lparr>pointcloud_xyz_published := pointcloud_xyz_published node @
                    [\<lparr>header_stamp = t, header_frame_id = optical_frame_id node DEPTH,
                      pc_width = width di, pc_height = height di,
                      is_dense = True, points = qs\<rparr>]\<rparr>)"
    and slots': "\<And>x y. 0 \<le> x \<and> x < width di \<and> 0 \<le> y \<and> y < height di \<Longrightarrow>
                qs ! nat (y * width di + x) =
                  depth_pc_point rs di (depth_scale_meters node) x y
                    (image_depth16 node ! nat (y * width di + x))"
    unfolding di_def by blast
  let ?msg = "\<lparr>header_stamp = t, header_frame_id = optical_frame_id node DEPTH,
                      pc_width = width di, pc_height = height di,
                      is_dense = True, points = ps\<rparr>"
  let ?xyz = "\<lparr>header_stamp = t, header_frame_id = optical_frame_id node DEPTH,
                      pc_width = width di, pc_height = height di,
                      is_dense = True, points = qs\<rparr>"
  have "let k = nat (y * width di + x);
            p = rs2_deproject_pixel_to_point rs di (real_of_int x, real_of_int y)
                  (real (unat (image_depth16 node ! k)) * depth_scale_meters node);
            color_pixel = rs2_project_point_to_pixel rs ci
                            (rs2_transform_point_to_point rs ext (fst (ps ! k)))
        in (snd (snd p) \<le> 0 \<or> 5 < snd (snd p) \<longrightarrow> fst (ps ! k) = (0, 0, 0))
         \<and> (0 < snd (snd p) \<and> snd (snd p) \<le> 5 \<longrightarrow> fst (ps ! k) = p)
         \<and> (snd color_pixel < 0 \<or> real_of_int (height ci) \<le> snd color_pixel
               \<or> fst color_pixel < 0 \<or> real_of_int (width ci) \<le> fst color_pixel \<longrightarrow>
             snd (ps ! k) = (96, 157, 198))
         \<and> (5 < snd (snd p) \<longrightarrow> qs ! k = p)"
    if b: "0 \<le> x \<and> x < width di \<and> 0 \<le> y \<and> y < height di" for x y
  proof -
    note r = rgb_pc_point_Some [OF slots [OF b]]
    from r(1) r(2) slots' [OF b] show ?thesis
      by (simp add: Let_def depth_pc_point_def)
  qed
  then show ?thesis
    using pub pub' by (intro exI [of _ ?msg] exI [of _ ?xyz]) simp
qed

text \<open>
  The raw depth 6000 is six metres: its point is zeroed.  With the colour camera
  shifted by five units, both emitted points project outside the two colour pixels and
  receive the fixed colour.
\<close>

theorem publishRgbToDepthPCTopic_clipping_witness:
  "publishRgbToDepthPCTopic pinhole (sample_node [6000, 1000] 5) 7
       [DEPTH \<mapsto> True, COLOR \<mapsto> True] =
     Some ((sample_node [6000, 1000] 5)\<lparr>pointcloud_xyzrgb_published :=
       [\<lparr>header_stamp = 7, header_frame_id = ''camera_depth_optical_frame'',
         pc_width = 2, pc_height = 1, is_dense = True,
         points = [((0, 0, 0), 96, 157, 198), ((1, 0, 1), 96, 157, 198)]\<rparr>]\<rparr>)"
proof -
  have arr: "[DEPTH \<mapsto> True, COLOR \<mapsto> True] COLOR = Some True"
            "[DEPTH \<mapsto> True, COLOR \<mapsto> True] DEPTH = Some True"
    by (simp_all add: DEPTH_def COLOR_def)
  have size: "nat (height (stream_intrinsics (sample_node [6000, 1000] 5) DEPTH))
                * nat (width (stream_intrinsics (sample_node [6000, 1000] 5) DEPTH))
              \<le> length (image_depth16 (sample_node [6000, 1000] 5))"
    by (simp add: sample_node_def sample_intrinsics_def)
  have csize: "3 * (nat (height (stream_intrinsics (sample_node [6000, 1000] 5) COLOR))
                * nat (width (stream_intrinsics (sample_node [6000, 1000] 5) COLOR)))
              \<le> length (image_color (sample_node [6000, 1000] 5))"
    by (simp add: sample_node_def sample_intrinsics_def)
  have "publishRgbToDepthPCTopic pinhole (sample_node [6000, 1000] 5) 7
       [DEPTH \<mapsto> True, COLOR \<mapsto> True] =
     Some ((sample_node [6000, 1000] 5)\<lparr>pointcloud_xyzrgb_published :=
       [\<lparr>header_stamp = 7, header_frame_id = ''camera_depth_optical_frame'',
         pc_width = 2, pc_height = 1, is_dense = True,
         points = [((0, 0, 0), 96, 157, 198), ((1, 0, 1), 96, 157, 198)]\<rparr>]\<rparr>)"
    by (simp add: publishRgbToDepthPCTopic_def sample_node_def image_pixels_sample
          rgb_pc_point_def Let_def pinhole_def DEPTH_def COLOR_def)
      (simp add: sample_intrinsics_def sample_extrinsics_def static_cast_int_def)
  then show ?thesis
    using publishRgbToDepthPCTopic_clipping
            [of "[DEPTH \<mapsto> True, COLOR \<mapsto> True]" "sample_node [6000, 1000] 5" pinhole 7,
             OF arr size csize]
    by (simp only:)
qed

text \<open>
  C5, as the code has it.  When the projection of the emitted point into the colour
  image lies inside the colour frame, the slot receives the three bytes of the colour
  pixel whose column and row are the projected coordinates with their fractions
  discarded (\<^verbatim>\<open>static_cast<int>\<close>, the floor of a coordinate that is not negative):
  the bytes at \<open>3 * (j * width + i)\<close> and the two after it.  No other pixel is read.
\<close>

theorem publishRgbToDepthPCTopic_sampling:
  fixes node :: node_state and rs :: rsutil
  defines "di \<equiv> stream_intrinsics node DEPTH"
      and "ci \<equiv> stream_intrinsics node COLOR"
      and "ext \<equiv> depth_to_other_extrinsics node COLOR"
  assumes arr: "is_frame_arrived COLOR = Some True" "is_frame_arrived DEPTH = Some True"
      and size: "nat (height di) * nat (width di) \<le> length (image_depth16 node)"
      and csize: "3 * (nat (height ci) * nat (width ci)) \<le> length (image_color node)"
  shows "\<exists>msg.
           publishRgbToDepthPCTopic rs node t is_frame_arrived =
             Some (node\<lparr>pointcloud_xyzrgb_published := pointcloud_xyzrgb_published node @ [msg]\<rparr>)
         \<and> (\<forall>x y. 0 \<le> x \<and> x < width di \<and> 0 \<le> y \<and> y < height di \<longrightarrow>
              (let k = nat (y * width di + x);
                   color_pixel = rs2_project_point_to_pixel rs ci
                                   (rs2_transform_point_to_point rs ext (fst (points msg ! k)));
                   i = \<lfloor>fst color_pixel\<rfloor>;
                   j = \<lfloor>snd color_pixel\<rfloor>;
                   offset = nat (3 * (j * width ci + i))
               in 0 \<le> fst color_pixel \<and> fst color_pixel < real_of_int (width ci)
                  \<and> 0 \<le> snd color_pixel \<and> snd color_pixel < real_of_int (height ci) \<longrightarrow>
                  offset + 2 < length (image_color node)
                  \<and> snd (points msg ! k) =
                      (image_color node ! offset, image_color node ! (offset + 1),
                       image_color node ! (offset + 2))))"
proof -
  from publishRgbToDepthPCTopic_slots [of is_frame_arrived node rs t] arr size csize
  obtain ps where pub: "publishRgbToDepthPCTopic rs node t is_frame_arrived =
            Some (node\<lparr>pointcloud_xyzrgb_published := pointcloud_xyzrgb_published node @
                    [\<lparr>header_stamp = t, header_frame_id = optical_frame_id node DEPTH,
                      pc_width = width di, pc_height = height di,
                      is_dense = True, points = ps\<rparr>]\<rparr>)"
    and slots: "\<And>x y. 0 \<le> x \<and> x < width di \<and> 0 \<le> y \<and> y < height di \<Longrightarrow>
                rgb_pc_point rs di ci ext (depth_scale_meters node) (image_color node) x y
                    (image_depth16 node ! nat (y * width di + x))
                  = Some (ps ! nat (y * width di + x))"
    unfolding di_def ci_def ext_def by blast
  let ?msg = "\<lparr>header_stamp = t, header_frame_id = optical_frame_id node DEPTH,
                      pc_width = width di, pc_height = height di,
                      is_dense = True, points = ps\<rparr>"
  have "let k = nat (y * width di + x);
            color_pixel = rs2_project_point_to_pixel rs ci
                            (rs2_transform_point_to_point rs ext (fst (ps ! k)));
            i = \<lfloor>fst color_pixel\<rfloor>;
            j = \<lfloor>snd color_pixel\<rfloor>;
            offset = nat (3 * (j * width ci + i))
        in 0 \<le> fst color_pixel \<and> fst color_pixel < real_of_int (width ci)
           \<and> 0 \<le> snd color_pixel \<and> snd color_pixel < real_of_int (height ci) \<longrightarrow>
           offset + 2 < length (image_color node)
           \<and> snd (ps ! k) =
               (image_color node ! offset, image_color node ! (offset + 1),
                image_color node ! (offset + 2))"
    if b: "0 \<le> x \<and> x < width di \<and> 0 \<le> y \<and> y < height di" for x y
  proof -
    define c where "c = rs2_project_point_to_pixel rs ci
                          (rs2_transform_point_to_point rs ext (fst (ps ! nat (y * width di + x))))"
    note r = rgb_pc_point_Some [OF slots [OF b]]
    have "nat (3 * (\<lfloor>snd c\<rfloor> * width ci + \<lfloor>fst c\<rfloor>)) + 2 < length (image_color node)
          \<and> snd (ps ! nat (y * width di + x)) =
               (image_color node ! nat (3 * (\<lfloor>snd c\<rfloor> * width ci + \<lfloor>fst c\<rfloor>)),
                image_color node ! (nat (3 * (\<lfloor>snd c\<rfloor> * width ci + \<lfloor>fst c\<rfloor>)) + 1),
                image_color node ! (nat (3 * (\<lfloor>snd c\<rfloor> * width ci + \<lfloor>fst c\<rfloor>)) + 2))"
      if inb: "0 \<le> fst c" "fst c < real_of_int (width ci)"
              "0 \<le> snd c" "snd c < real_of_int (height ci)"
    proof -
      have off: "static_cast_int (fst c) * 3 + static_cast_int (snd c) * width ci * 3
                   = 3 * (\<lfloor>snd c\<rfloor> * width ci + \<lfloor>fst c\<rfloor>)"
        using inb by (simp add: static_cast_int_floor algebra_simps)
      from color_offset_in_range [OF inb] csize
      have "nat (3 * (\<lfloor>snd c\<rfloor> * width ci + \<lfloor>fst c\<rfloor>)) + 2 < length (image_color node)"
        unfolding off by simp
      moreover from r(3) inb
      have "snd (ps ! nat (y * width di + x)) =
               (image_color node ! nat (3 * (\<lfloor>snd c\<rfloor> * width ci + \<lfloor>fst c\<rfloor>)),
                image_color node ! (nat (3 * (\<lfloor>snd c\<rfloor> * width ci + \<lfloor>fst c\<rfloor>)) + 1),
                image_color node ! (nat (3 * (\<lfloor>snd c\<rfloor> * width ci + \<lfloor>fst c\<rfloor>)) + 2))"
        unfolding c_def [symmetric] Let_def off by simp
      ultimately show ?thesis by simp
    qed
    then show ?thesis
      unfolding Let_def c_def by blast
  qed
  then show ?thesis
    using pub by (intro exI [of _ ?msg]) simp
qed

text \<open>
  With the colour camera shifted so that the first point projects to column 0.7 and
  the second to column 1.2, the colours are those of the colour pixels 0 and 1.
\<close>

theorem publishRgbToDepthPCTopic_sampling_witness:
  "publishRgbToDepthPCTopic pinhole (sample_node [1000, 1000] (7 / 5)) 7
       [DEPTH \<mapsto> True, COLOR \<mapsto> True] =
     Some ((sample_node [1000, 1000] (7 / 5))\<lparr>pointcloud_xyzrgb_published :=
       [\<lparr>header_stamp = 7, header_frame_id = ''camera_depth_optical_frame'',
         pc_width = 2, pc_height = 1, is_dense = True,
         points = [((0, 0, 1), 1, 2, 3), ((1, 0, 1), 4, 5, 6)]\<rparr>]\<rparr>)"
proof -
  have arr: "[DEPTH \<mapsto> True, COLOR \<mapsto> True] COLOR = Some True"
            "[DEPTH \<mapsto> True, COLOR \<mapsto> True] DEPTH = Some True"
    by (simp_all add: DEPTH_def COLOR_def)
  have size: "nat (height (stream_intrinsics (sample_node [1000, 1000] (7 / 5)) DEPTH))
                * nat (width (stream_intrinsics (sample_node [1000, 1000] (7 / 5)) DEPTH))
              \<le> length (image_depth16 (sample_node [1000, 1000] (7 / 5)))"
    by (simp add: sample_node_def sample_intrinsics_def)
  have csize: "3 * (nat (height (stream_intrinsics (sample_node [1000, 1000] (7 / 5)) COLOR))
                * nat (width (stream_intrinsics (sample_node [1000, 1000] (7 / 5)) COLOR)))
              \<le> length (image_color (sample_node [1000, 1000] (7 / 5)))"
    by (simp add: sample_node_def sample_intrinsics_def)
  have "publishRgbToDepthPCTopic pinhole (sample_node [1000, 1000] (7 / 5)) 7
       [DEPTH \<mapsto> True, COLOR \<mapsto> True] =
     Some ((sample_node [1000, 1000] (7 / 5))\<lparr>pointcloud_xyzrgb_published :=
       [\<lparr>header_stamp = 7, header_frame_id = ''camera_depth_optical_frame'',
         pc_width = 2, pc_height = 1, is_dense = True,
         points = [((0, 0, 1), 1, 2, 3), ((1, 0, 1), 4, 5, 6)]\<rparr>]\<rparr>)"
    by (simp add: publishRgbToDepthPCTopic_def sample_node_def image_pixels_sample
          rgb_pc_point_def Let_def pinhole_def DEPTH_def COLOR_def)
      (simp add: sample_intrinsics_def sample_extrinsics_def static_cast_int_def)
  then show ?thesis
    using publishRgbToDepthPCTopic_sampling
            [of "[DEPTH \<mapsto> True, COLOR \<mapsto> True]" "sample_node [1000, 1000] (7 / 5)" pinhole 7,
             OF arr size csize]
    by (simp only:)
qed

text \<open>
  C5 as it is written fails.  The point \<open>(0, 0, 1)\<close> of the first depth pixel projects
  to the colour coordinate \<open>(0.7, 0)\<close>.  The nearest integer pixel is \<open>(1, 0)\<close>, whose
  bytes start at offset 3; the colour in the slot is not the colour stored there (it is
  the colour of pixel \<open>(0, 0)\<close>).
\<close>

theorem publishRgbToDepthPCTopic_nearest_counterexample:
  "rs2_project_point_to_pixel pinhole (sample_intrinsics 2 1)
     (rs2_transform_point_to_point pinhole (sample_extrinsics (7 / 5)) (0, 0, 1)) = (7 / 10, 0)
   \<and> (round (7 / 10 :: real), round (0 :: real)) = (1, 0)
   \<and> snd (points (last (pointcloud_xyzrgb_published (the
        (publishRgbToDepthPCTopic pinhole (sample_node [1000, 1000] (7 / 5)) 7
           [DEPTH \<mapsto> True, COLOR \<mapsto> True])))) ! 0)
      \<noteq> (image_color (sample_node [1000, 1000] (7 / 5)) ! nat (3 * (0 * 2 + 1)),
          image_color (sample_node [1000, 1000] (7 / 5)) ! (nat (3 * (0 * 2 + 1)) + 1),
          image_color (sample_node [1000, 1000] (7 / 5)) ! (nat (3 * (0 * 2 + 1)) + 2))"
proof -
  have "publishRgbToDepthPCTopic pinhole (sample_node [1000, 1000] (7 / 5)) 7
       [DEPTH \<mapsto> True, COLOR \<mapsto> True] =
     Some ((sample_node [1000, 1000] (7 / 5))\<lparr>pointcloud_xyzrgb_published :=
       [\<lparr>header_stamp = 7, header_frame_id = ''camera_depth_optical_frame'',
         pc_width = 2, pc_height = 1, is_dense = True,
         points = [((0, 0, 1), 1, 2, 3), ((1, 0, 1), 4, 5, 6)]\<rparr>]\<rparr>)"
    by (simp add: publishRgbToDepthPCTopic_def sample_node_def image_pixels_sample
          rgb_pc_point_def Let_def pinhole_def DEPTH_def COLOR_def)
      (simp add: sample_intrinsics_def sample_extrinsics_def static_cast_int_def)
  moreover have "round (7 / 10 :: real) = 1"
    by (simp add: round_def)
  ultimately show ?thesis
    by (simp add: pinhole_def sample_intrinsics_def sample_extrinsics_def sample_node_def)
qed

text \<open>
  C10.  A point that was zeroed because its depth coordinate is not positive or exceeds
  5 is still carried through the depth-to-colour extrinsics and projected.  When that
  projection of the origin lies inside the colour frame, the slot holds the zero vector
  together with the bytes read from the colour image at the projected pixel, whatever
  they are, and not the fixed out-of-bounds colour.
\<close>

theorem publishRgbToDepthPCTopic_zeroed_point_color:
  fixes node :: node_state and rs :: rsutil
  defines "di \<equiv> stream_intrinsics node DEPTH"
      and "ci \<equiv> stream_intrinsics node COLOR"
      and "ext \<equiv> depth_to_other_extrinsics node COLOR"
  defines "origin_pixel \<equiv>
             rs2_project_point_to_pixel rs ci (rs2_transform_point_to_point rs ext (0, 0, 0))"
  assumes arr: "is_frame_arrived COLOR = Some True" "is_frame_arrived DEPTH = Some True"
      and size: "nat (height di) * nat (width di) \<le> length (image_depth16 node)"
      and csize: "3 * (nat (height ci) * nat (width ci)) \<le> length (image_color node)"
      and pixel: "0 \<le> x" "x < width di" "0 \<le> y" "y < height di"
      and clipped:
        "snd (snd (rs2_deproject_pixel_to_point rs di (real_of_int x, real_of_int y)
           (real (unat (image_depth16 node ! nat (y * width di + x))) * depth_scale_meters node))) \<le> 0
         \<or> 5 < snd (snd (rs2_deproject_pixel_to_point rs di (real_of_int x, real_of_int y)
           (real (unat (image_depth16 node ! nat (y * width di + x))) * depth_scale_meters node)))"
      and inside: "0 \<le> fst origin_pixel" "fst origin_pixel < real_of_int (width ci)"
                  "0 \<le> snd origin_pixel" "snd origin_pixel < real_of_int (height ci)"
  shows "\<exists>msg.
           publishRgbToDepthPCTopic rs node t is_frame_arrived =
             Some (node\<lparr>pointcloud_xyzrgb_published := pointcloud_xyzrgb_published node @ [msg]\<rparr>)
         \<and> points msg ! nat (y * width di + x) =
             (let offset = nat (3 * (\<lfloor>snd origin_pixel\<rfloor> * width ci + \<lfloor>fst origin_pixel\<rfloor>))
              in ((0, 0, 0), image_color node ! offset, image_color node ! (offset + 1),
                  image_color node ! (offset + 2)))"
proof -
  from publishRgbToDepthPCTopic_slots [of is_frame_arrived node rs t] arr size csize
  obtain ps where pub: "publishRgbToDepthPCTopic rs node t is_frame_arrived =
            Some (node\<lparr>pointcloud_xyzrgb_published := pointcloud_xyzrgb_published node @
                    [\<lparr>header_stamp = t, header_frame_id = optical_frame_id node DEPTH,
                      pc_width = width di, pc_height = height di,
                      is_dense = True, points = ps\<rparr>]\<rparr>)"
    and slots: "\<And>x y. 0 \<le> x \<and> x < width di \<and> 0 \<le> y \<and> y < height di \<Longrightarrow>
                rgb_pc_point rs di ci ext (depth_scale_meters node) (image_color node) x y
                    (image_depth16 node ! nat (y * width di + x))
                  = Some (ps ! nat (y * width di + x))"
    unfolding di_def ci_def ext_def by blast
  let ?msg = "\<lparr>header_stamp = t, header_frame_id = optical_frame_id node DEPTH,
                      pc_width = width di, pc_height = height di,
                      is_dense = True, points = ps\<rparr>"
  from pixel have b: "0 \<le> x \<and> x < width di \<and> 0 \<le> y \<and> y < height di" by simp
  note r = rgb_pc_point_Some [OF slots [OF b]]
  from r(1) clipped have zero: "fst (ps ! nat (y * width di + x)) = (0, 0, 0)"
    by (simp add: Let_def)
  have off: "static_cast_int (fst origin_pixel) * 3 + static_cast_int (snd origin_pixel) * width ci * 3
               = 3 * (\<lfloor>snd origin_pixel\<rfloor> * width ci + \<lfloor>fst origin_pixel\<rfloor>)"
    using inside by (simp add: static_cast_int_floor algebra_simps)
  from r(3) inside
  have "snd (ps ! nat (y * width di + x)) =
          (let offset = nat (3 * (\<lfloor>snd origin_pixel\<rfloor> * width ci + \<lfloor>fst origin_pixel\<rfloor>))
           in (image_color node ! offset, image_color node ! (offset + 1),
               image_color node ! (offset + 2)))"
    unfolding zero origin_pixel_def [symmetric] off by simp
  with zero have "ps ! nat (y * width di + x) =
             (let offset = nat (3 * (\<lfloor>snd origin_pixel\<rfloor> * width ci + \<lfloor>fst origin_pixel\<rfloor>))
              in ((0, 0, 0), image_color node ! offset, image_color node ! (offset + 1),
                  image_color node ! (offset + 2)))"
    by (simp add: Let_def prod_eq_iff)
  then show ?thesis
    using pub by (intro exI [of _ ?msg]) simp
qed

text \<open>
  The first depth pixel is six metres away and zeroed; the origin projects to the
  colour coordinate \<open>(0.7, 0)\<close>, inside the frame, and the slot receives the colour
  \<open>(1, 2, 3)\<close> of colour pixel 0.
\<close>

theorem publishRgbToDepthPCTopic_zeroed_point_color_witness:
  "publishRgbToDepthPCTopic pinhole (sample_node [6000, 1000] (7 / 10)) 7
       [DEPTH \<mapsto> True, COLOR \<mapsto> True] =
     Some ((sample_node [6000, 1000] (7 / 10))\<lparr>pointcloud_xyzrgb_published :=
       [\<lparr>header_stamp = 7, header_frame_id = ''camera_depth_optical_frame'',
         pc_width = 2, pc_height = 1, is_dense = True,
         points = [((0, 0, 0), 1, 2, 3), ((1, 0, 1), 1, 2, 3)]\<rparr>]\<rparr>)"
proof -
  have arr: "[DEPTH \<mapsto> True, COLOR \<mapsto> True] COLOR = Some True"
            "[DEPTH \<mapsto> True, COLOR \<mapsto> True] DEPTH = Some True"
    by (simp_all add: DEPTH_def COLOR_def)
  have size: "nat (height (stream_intrinsics (sample_node [6000, 1000] (7 / 10)) DEPTH))
                * nat (width (stream_intrinsics (sample_node [6000, 1000] (7 / 10)) DEPTH))
              \<le> length (image_depth16 (sample_node [6000, 1000] (7 / 10)))"
    by (simp add: sample_node_def sample_intrinsics_def)
  have csize: "3 * (nat (height (stream_intrinsics (sample_node [6000, 1000] (7 / 10)) COLOR))
                * nat (width (stream_intrinsics (sample_node [6000, 1000] (7 / 10)) COLOR)))
              \<le> length (image_color (sample_node [6000, 1000] (7 / 10)))"
    by (simp add: sample_node_def sample_intrinsics_def)
  have pixel: "(0::int) \<le> 0"
      "0 < width (stream_intrinsics (sample_node [6000, 1000] (7 / 10)) DEPTH)"
      "(0::int) \<le> 0"
      "0 < height (stream_intrinsics (sample_node [6000, 1000] (7 / 10)) DEPTH)"
    by (simp_all add: sample_node_def sample_intrinsics_def)
  have clipped:
    "snd (snd (rs2_deproject_pixel_to_point pinhole
         (stream_intrinsics (sample_node [6000, 1000] (7 / 10)) DEPTH)
         (real_of_int 0, real_of_int 0)
         (real (unat (image_depth16 (sample_node [6000, 1000] (7 / 10)) !
            nat (0 * width (stream_intrinsics (sample_node [6000, 1000] (7 / 10)) DEPTH) + 0)))
          * depth_scale_meters (sample_node [6000, 1000] (7 / 10))))) \<le> 0
     \<or> 5 < snd (snd (rs2_deproject_pixel_to_point pinhole
         (stream_intrinsics (sample_node [6000, 1000] (7 / 10)) DEPTH)
         (real_of_int 0, real_of_int 0)
         (real (unat (image_depth16 (sample_node [6000, 1000] (7 / 10)) !
            nat (0 * width (stream_intrinsics (sample_node [6000, 1000] (7 / 10)) DEPTH) + 0)))
          * depth_scale_meters (sample_node [6000, 1000] (7 / 10)))))"
    by (simp add: sample_node_def sample_intrinsics_def pinhole_def)
  have inside:
    "0 \<le> fst (rs2_project_point_to_pixel pinhole
        (stream_intrinsics (sample_node [6000, 1000] (7 / 10)) COLOR)
        (rs2_transform_point_to_point pinhole
           (depth_to_other_extrinsics (sample_node [6000, 1000] (7 / 10)) COLOR) (0, 0, 0)))"
    "fst (rs2_project_point_to_pixel pinhole
        (stream_intrinsics (sample_node [6000, 1000] (7 / 10)) COLOR)
        (rs2_transform_point_to_point pinhole
           (depth_to_other_extrinsics (sample_node [6000, 1000] (7 / 10)) COLOR) (0, 0, 0)))
      < real_of_int (width (stream_intrinsics (sample_node [6000, 1000] (7 / 10)) COLOR))"
    "0 \<le> snd (rs2_project_point_to_pixel pinhole
        (stream_intrinsics (sample_node [6000, 1000] (7 / 10)) COLOR)
        (rs2_transform_point_to_point pinhole
           (depth_to_other_extrinsics (sample_node [6000, 1000] (7 / 10)) COLOR) (0, 0, 0)))"
    "snd (rs2_project_point_to_pixel pinhole
        (stream_intrinsics (sample_node [6000, 1000] (7 / 10)) COLOR)
        (rs2_transform_point_to_point pinhole
           (depth_to_other_extrinsics (sample_node [6000, 1000] (7 / 10)) COLOR) (0, 0, 0)))
      < real_of_int (height (stream_intrinsics (sample_node [6000, 1000] (7 / 10)) COLOR))"
    by (simp_all add: sample_node_def sample_intrinsics_def sample_extrinsics_def pinhole_def)
  have "publishRgbToDepthPCTopic pinhole (sample_node [6000, 1000] (7 / 10)) 7
       [DEPTH \<mapsto> True, COLOR \<mapsto> True] =
     Some ((sample_node [6000, 1000] (7 / 10))\<lparr>pointcloud_xyzrgb_published :=
       [\<lparr>header_stamp = 7, header_frame_id = ''camera_depth_optical_frame'',
         pc_width = 2, pc_height = 1, is_dense = True,
         points = [((0, 0, 0), 1, 2, 3), ((1, 0, 1), 1, 2, 3)]\<rparr>]\<rparr>)"
    by (simp add: publishRgbToDepthPCTopic_def sample_node_def image_pixels_sample
          rgb_pc_point_def Let_def pinhole_def DEPTH_def COLOR_def)
      (simp add: sample_intrinsics_def sample_extrinsics_def static_cast_int_def)
  then show ?thesis
    using publishRgbToDepthPCTopic_zeroed_point_color
            [of "[DEPTH \<mapsto> True, COLOR \<mapsto> True]" "sample_node [6000, 1000] (7 / 10)"
                0 0 pinhole 7, OF arr size csize pixel clipped inside]
    by (simp only:)
qed

subsection \<open>Skipping the point clouds\<close>

text \<open>
  C8.  When the arrival map of the dispatch does not mark the depth stream as arrived,
  because its entry is false or because the map has no entry for it,
  \<^verbatim>\<open>publishDepthPCTopic\<close> returns normally and leaves the node as it was: nothing is
  published.  \<^verbatim>\<open>publishRgbToDepthPCTopic\<close> does the same when the colour stream or
  the depth stream is not marked as arrived.
\<close>

theorem publish_skipped_without_frames:
  "(is_frame_arrived DEPTH \<noteq> Some True \<longrightarrow>
      publishDepthPCTopic rs node t is_frame_arrived = Some node)
   \<and> (is_frame_arrived COLOR \<noteq> Some True \<or> is_frame_arrived DEPTH \<noteq> Some True \<longrightarrow>
      publishRgbToDepthPCTopic rs node t is_frame_arrived = Some node)"
  by (auto simp: publishDepthPCTopic_def publishRgbToDepthPCTopic_def split: option.splits)

text \<open>
  A dispatch with only the colour frame: the depth entry is false for the depth-only
  cloud, and missing for the colour-fused one.
\<close>

theorem publish_skipped_without_frames_witness:
  "publishDepthPCTopic pinhole (sample_node [0, 1000] 0) 7 [COLOR \<mapsto> True, DEPTH \<mapsto> False]
     = Some (sample_node [0, 1000] 0)
   \<and> publishRgbToDepthPCTopic pinhole (sample_node [0, 1000] 0) 7 [COLOR \<mapsto> True]
     = Some (sample_node [0, 1000] 0)"
  using publish_skipped_without_frames
          [of "[COLOR \<mapsto> True, DEPTH \<mapsto> False]" pinhole "sample_node [0, 1000] 0" 7]
        publish_skipped_without_frames
          [of "[COLOR \<mapsto> True]" pinhole "sample_node [0, 1000] 0" 7]
  by (simp add: DEPTH_def COLOR_def)

subsection \<open>Aligning depth to another stream\<close>

lemma fold_update_inner:
  "length (fold (\<lambda>x p. p[g x := v]) xs p) = length p \<and>
   (k < length p \<longrightarrow>
    fold (\<lambda>x p. p[g x := v]) xs p ! k = (if \<exists>x \<in> set xs. k = g x then v else p ! k))"
proof (induction xs arbitrary: p)
  case Nil
  show ?case by simp
next
  case (Cons x xs)
  show ?case
    using Cons.IH [of "p[g x := v]"]
    by (auto simp: nth_list_update)
qed

lemma fold_update_outer:
  "length (fold (\<lambda>y. fold (\<lambda>x p. p[g y x := v]) xs) ys p) = length p \<and>
   (k < length p \<longrightarrow>
    fold (\<lambda>y. fold (\<lambda>x p. p[g y x := v]) xs) ys p ! k =
      (if \<exists>y \<in> set ys. \<exists>x \<in> set xs. k = g y x then v else p ! k))"
proof (induction ys arbitrary: p)
  case Nil
  show ?case by simp
next
  case (Cons y ys)
  show ?case
    using Cons.IH [of "fold (\<lambda>x p. p[g y x := v]) xs p"] fold_update_inner [of "g y" v xs p k]
    by auto
qed

lemma write_rect_nth:
  "length (write_rect w c0 c1 v out) = length out \<and>
   (k < length out \<longrightarrow>
    write_rect w c0 c1 v out ! k =
      (if \<exists>y x. snd c0 \<le> y \<and> y \<le> snd c1 \<and> fst c0 \<le> x \<and> x \<le> fst c1 \<and> k = nat (y * w + x)
       then v else out ! k))"
  using fold_update_outer [of "\<lambda>y x. nat (y * w + x)" v "[fst c0..fst c1]" "[snd c0..snd c1]" out k]
  unfolding write_rect_def by (simp add: Bex_def)

lemma row_major_inj:
  fixes x y x' y' w :: int
  assumes "0 \<le> x" "x < w" "0 \<le> x'" "x' < w" "y * w + x = y' * w + x'"
  shows "x = x' \<and> y = y'"
proof -
  have "(y * w + x) mod w = x mod w" "(y' * w + x') mod w = x' mod w"
    by simp_all
  moreover have "x mod w = x" "x' mod w = x'"
    using assms by simp_all
  ultimately have x: "x = x'"
    using assms(5) by simp
  with assms have "y * w = y' * w" by simp
  with assms x show ?thesis by auto
qed

lemma align_pixel_depth:
  "align_pixel rs scale from_intrin other_intrin RS2_STREAM_DEPTH p_from ext from_x from_y p_out =
     (let raw = p_from ! nat (from_y * width from_intrin + from_x);
          depth = scale * real (unat raw);
          c0 = other_corner rs from_intrin other_intrin ext
                 (real_of_int from_x - 0.5, real_of_int from_y - 0.5) depth;
          c1 = other_corner rs from_intrin other_intrin ext
                 (real_of_int from_x + 0.5, real_of_int from_y + 0.5) depth
      in if depth = 0 \<or> fst c0 < 0 \<or> snd c0 < 0
            \<or> width other_intrin \<le> fst c1 \<or> height other_intrin \<le> snd c1
         then p_out
         else write_rect (width other_intrin) c0 c1
                (static_cast_uint16 (real (unat raw) * (scale / 0.001))) p_out)"
  by (simp add: align_pixel_def Let_def)

text \<open>
  What one source pixel does to every sample of the output image: the sample receives
  the re-scaled depth when the raw depth is not zero, the rectangle between the two
  corners that the code computes lies inside the other image and the sample is a pixel
  of that rectangle; otherwise the sample keeps its value.
\<close>

lemma align_pixel_nth:
  fixes p :: "16 word list"
  shows "length (align_pixel rs scale from_intrin other_intrin RS2_STREAM_DEPTH p_from ext x y p)
           = length p \<and>
     (\<forall>k < length p.
        align_pixel rs scale from_intrin other_intrin RS2_STREAM_DEPTH p_from ext x y p ! k =
          (let raw = p_from ! nat (y * width from_intrin + x);
               depth = scale * real (unat raw);
               c0 = other_corner rs from_intrin other_intrin ext
                      (real_of_int x - 0.5, real_of_int y - 0.5) depth;
               c1 = other_corner rs from_intrin other_intrin ext
                      (real_of_int x + 0.5, real_of_int y + 0.5) depth
           in if depth \<noteq> 0 \<and> 0 \<le> fst c0 \<and> 0 \<le> snd c0
                 \<and> fst c1 < width other_intrin \<and> snd c1 < height other_intrin
                 \<and> (\<exists>ty tx. snd c0 \<le> ty \<and> ty \<le> snd c1 \<and> fst c0 \<le> tx \<and> tx \<le> fst c1
                        \<and> k = nat (ty * width other_intrin + tx))
              then static_cast_uint16 (real (unat raw) * (scale / 0.001))
              else p ! k))"
proof -
  define raw where "raw = p_from ! nat (y * width from_intrin + x)"
  define depth where "depth = scale * real (unat raw)"
  define c0 where "c0 = other_corner rs from_intrin other_intrin ext
                      (real_of_int x - 0.5, real_of_int y - 0.5) depth"
  define c1 where "c1 = other_corner rs from_intrin other_intrin ext
                      (real_of_int x + 0.5, real_of_int y + 0.5) depth"
  define v where "v = static_cast_uint16 (real (unat raw) * (scale / 0.001))"
  define inside where "inside \<longleftrightarrow> depth \<noteq> 0 \<and> 0 \<le> fst c0 \<and> 0 \<le> snd c0
                 \<and> fst c1 < width other_intrin \<and> snd c1 < height other_intrin"
  have eq: "align_pixel rs scale from_intrin other_intrin RS2_STREAM_DEPTH p_from ext x y p =
              (if inside then write_rect (width other_intrin) c0 c1 v p else p)"
    unfolding align_pixel_depth Let_def inside_def c0_def c1_def v_def depth_def raw_def
    by (simp add: not_le not_less)
  have "length (if inside then write_rect (width other_intrin) c0 c1 v p else p) = length p \<and>
     (\<forall>k < length p.
        (if inside then write_rect (width other_intrin) c0 c1 v p else p) ! k =
          (if inside
                 \<and> (\<exists>ty tx. snd c0 \<le> ty \<and> ty \<le> snd c1 \<and> fst c0 \<le> tx \<and> tx \<le> fst c1
                        \<and> k = nat (ty * width other_intrin + tx))
           then v else p ! k))"
    using write_rect_nth [of "width other_intrin" c0 c1 v p] by simp
  then show ?thesis
    unfolding eq [symmetric]
    unfolding Let_def inside_def c0_def c1_def v_def depth_def raw_def
    by simp
qed

text \<open>
  A fold of steps that each set the samples they hit to one value: a sample that no
  step hits keeps its value, and a sample that some step hits holds the value of a step
  that hits it.
\<close>

lemma fold_writes:
  assumes step: "\<And>a p. a \<in> set as \<Longrightarrow>
            length (f a p) = length p \<and>
            (\<forall>k < length p. f a p ! k = (if hit a k then val a else p ! k))"
  shows "length (fold f as p) = length p \<and>
         (\<forall>k < length p.
            ((\<forall>a \<in> set as. \<not> hit a k) \<longrightarrow> fold f as p ! k = p ! k) \<and>
            ((\<exists>a \<in> set as. hit a k) \<longrightarrow> (\<exists>a \<in> set as. hit a k \<and> fold f as p ! k = val a)))"
  using step
proof (induction as arbitrary: p)
  case Nil
  show ?case by simp
next
  case (Cons a as)
  have a: "length (f a p) = length p"
    "\<And>k. k < length p \<Longrightarrow> f a p ! k = (if hit a k then val a else p ! k)"
    using Cons.prems [of a p] by simp_all
  have ih: "length (fold f as (f a p)) = length (f a p) \<and>
         (\<forall>k < length (f a p).
            ((\<forall>b \<in> set as. \<not> hit b k) \<longrightarrow> fold f as (f a p) ! k = f a p ! k) \<and>
            ((\<exists>b \<in> set as. hit b k) \<longrightarrow>
               (\<exists>b \<in> set as. hit b k \<and> fold f as (f a p) ! k = val b)))"
    by (rule Cons.IH) (simp add: Cons.prems)
  show ?case
  proof (intro conjI allI impI)
    show "length (fold f (a # as) p) = length p"
      using ih a(1) by simp
  next
    fix k assume k: "k < length p" and no: "\<forall>b \<in> set (a # as). \<not> hit b k"
    with ih a show "fold f (a # as) p ! k = p ! k" by simp
  next
    fix k assume k: "k < length p" and some: "\<exists>b \<in> set (a # as). hit b k"
    have "(\<exists>b \<in> set as. hit b k) \<or> (\<forall>b \<in> set as. \<not> hit b k)" by blast
    then show "\<exists>b \<in> set (a # as). hit b k \<and> fold f (a # as) p ! k = val b"
    proof
      assume "\<exists>b \<in> set as. hit b k"
      with ih k a(1) obtain b where "b \<in> set as" "hit b k" "fold f as (f a p) ! k = val b"
        by auto
      then show ?thesis by auto
    next
      assume none: "\<forall>b \<in> set as. \<not> hit b k"
      with some have h: "hit a k" by auto
      from none ih k a(1) have "fold f as (f a p) ! k = f a p ! k" by simp
      with a(2) [OF k] h show ?thesis by simp
    qed
  qed
qed

lemma fold_concat_lists: "fold f (concat xss) p = fold (fold f) xss p"
  by (induction xss arbitrary: p) simp_all

lemma align_rows_flat:
  "fold (align_row rs scale from_intrin other_intrin st p_from ext) rows p =
   fold (\<lambda>(x, y). align_pixel rs scale from_intrin other_intrin st p_from ext x y)
     (concat (map (\<lambda>y. map (\<lambda>x. (x, y)) [0..width from_intrin - 1]) rows)) p"
proof -
  have "align_row rs scale from_intrin other_intrin st p_from ext =
        (\<lambda>y. fold (\<lambda>(x, y). align_pixel rs scale from_intrin other_intrin st p_from ext x y)
                (map (\<lambda>x. (x, y)) [0..width from_intrin - 1]))"
    by (rule ext, rule ext) (simp add: align_row_def fold_map comp_def)
  then show ?thesis
    by (simp add: fold_concat_lists fold_map comp_def)
qed

text \<open>
  The samples that \<^verbatim>\<open>alignFrame\<close> writes, over all the source pixels of a depth
  frame and in whatever order the rows are taken.  A source pixel \<open>(x, y)\<close> writes the
  target pixel \<open>(tx, ty)\<close> when its raw depth is not zero, the rectangle between the two
  corners that the code computes lies inside the other image, and \<open>(tx, ty)\<close> is in that
  rectangle.  The function returns; a target pixel that no source pixel writes holds
  the blank value zero; a target pixel that some source pixel writes holds the
  re-scaled depth of a source pixel that writes it; the samples of the output vector
  beyond the image keep their values.  The corners are those of \<open>other_corner\<close>, the
  rounding of the code.
\<close>

lemma alignFrame_rows_write_set:
  fixes rs :: rsutil and p_from out_vec :: "16 word list"
    and from_intrin other_intrin :: rs2_intrinsics and ext :: rs2_extrinsics and scale :: real
  defines "W \<equiv> width other_intrin"
      and "H \<equiv> height other_intrin"
      and "raw \<equiv> (\<lambda>x y. p_from ! nat (y * width from_intrin + x))"
  defines "c0 \<equiv> (\<lambda>x y. other_corner rs from_intrin other_intrin ext
                  (real_of_int x - 0.5, real_of_int y - 0.5) (scale * real (unat (raw x y))))"
      and "c1 \<equiv> (\<lambda>x y. other_corner rs from_intrin other_intrin ext
                  (real_of_int x + 0.5, real_of_int y + 0.5) (scale * real (unat (raw x y))))"
  defines "written \<equiv> (\<lambda>x y tx ty.
              0 \<le> x \<and> x < width from_intrin \<and> 0 \<le> y \<and> y < height from_intrin
              \<and> scale * real (unat (raw x y)) \<noteq> 0
              \<and> 0 \<le> fst (c0 x y) \<and> 0 \<le> snd (c0 x y) \<and> fst (c1 x y) < W \<and> snd (c1 x y) < H
              \<and> fst (c0 x y) \<le> tx \<and> tx \<le> fst (c1 x y)
              \<and> snd (c0 x y) \<le> ty \<and> ty \<le> snd (c1 x y))"
  assumes rows: "sort rows = [0..height from_intrin - 1]"
      and other: "0 \<le> W" "0 \<le> H"
      and out: "nat (H * W) \<le> length out_vec"
      and src: "nat (height from_intrin) * nat (width from_intrin) \<le> length p_from"
  shows "\<exists>res. alignFrame_rows rows rs scale from_intrin other_intrin RS2_STREAM_DEPTH p_from 2
                 ext out_vec = Some res
           \<and> length res = length out_vec
           \<and> (\<forall>tx ty. 0 \<le> tx \<and> tx < W \<and> 0 \<le> ty \<and> ty < H \<longrightarrow>
                 ((\<forall>x y. \<not> written x y tx ty) \<longrightarrow> res ! nat (ty * W + tx) = 0)
               \<and> ((\<exists>x y. written x y tx ty) \<longrightarrow>
                    (\<exists>x y. written x y tx ty
                       \<and> res ! nat (ty * W + tx) =
                           static_cast_uint16 (real (unat (raw x y)) * (scale / 0.001)))))
           \<and> (\<forall>k. nat (H * W) \<le> k \<and> k < length out_vec \<longrightarrow> res ! k = out_vec ! k)"
proof -
  define pixels where
    "pixels = concat (map (\<lambda>y. map (\<lambda>x. (x, y)) [0..width from_intrin - 1]) rows)"
  define init where "init = memset_blank (nat (H * W)) out_vec"
  define f where "f = (\<lambda>(x, y). align_pixel rs scale from_intrin other_intrin RS2_STREAM_DEPTH
                                   p_from ext x y)"
  define inside where "inside = (\<lambda>(x, y). scale * real (unat (raw x y)) \<noteq> 0
              \<and> 0 \<le> fst (c0 x y) \<and> 0 \<le> snd (c0 x y) \<and> fst (c1 x y) < W \<and> snd (c1 x y) < H)"
  define hit where "hit = (\<lambda>a k. inside a \<and>
              (\<exists>ty tx. snd (c0 (fst a) (snd a)) \<le> ty \<and> ty \<le> snd (c1 (fst a) (snd a))
                     \<and> fst (c0 (fst a) (snd a)) \<le> tx \<and> tx \<le> fst (c1 (fst a) (snd a))
                     \<and> k = nat (ty * W + tx)))"
  define val where "val = (\<lambda>(x, y). static_cast_uint16 (real (unat (raw x y)) * (scale / 0.001)))"
  define res where "res = fold f pixels init"
  have rows_set: "set rows = {0..height from_intrin - 1}"
    using rows by (metis set_sort set_upto)
  have pixels_set: "set pixels =
      {(x, y). 0 \<le> x \<and> x < width from_intrin \<and> 0 \<le> y \<and> y < height from_intrin}"
    unfolding pixels_def using rows_set by auto
  have result: "alignFrame_rows rows rs scale from_intrin other_intrin RS2_STREAM_DEPTH p_from 2
                  ext out_vec = Some res"
    using rows other out src
    unfolding alignFrame_rows_def res_def f_def pixels_def init_def W_def H_def align_rows_flat
    by simp
  have step: "length (f a p) = length p \<and>
            (\<forall>k < length p. f a p ! k = (if hit a k then val a else p ! k))" for a p
  proof -
    obtain x y where a: "a = (x, y)" by fastforce
    show ?thesis
      unfolding a f_def hit_def inside_def val_def c0_def c1_def raw_def W_def H_def
        split_conv fst_conv snd_conv
      using align_pixel_nth [of rs scale from_intrin other_intrin p_from ext x y p,
              unfolded Let_def]
      by simp
  qed
  note fw = fold_writes [of pixels f hit val init, OF step, folded res_def]
  have init_len: "length init = length out_vec"
    using out by (simp add: init_def memset_blank_def)
  have init_low: "init ! k = 0" if "k < nat (H * W)" for k
    using that by (simp add: init_def memset_blank_def nth_append)
  have init_high: "init ! k = out_vec ! k" if "nat (H * W) \<le> k" "k < length out_vec" for k
    using that by (simp add: init_def memset_blank_def nth_append)
  have index: "nat (ty * W + tx) < nat (H * W)"
    if "0 \<le> tx" "tx < W" "0 \<le> ty" "ty < H" for tx ty
    using row_major_less [OF that] other by (simp add: nat_mult_distrib)
  have hit_iff: "(\<exists>a \<in> set pixels. hit a (nat (ty * W + tx)) \<and> Q a)
                   \<longleftrightarrow> (\<exists>x y. written x y tx ty \<and> Q (x, y))"
    if t: "0 \<le> tx" "tx < W" "0 \<le> ty" "ty < H" for tx ty Q
  proof
    assume "\<exists>a \<in> set pixels. hit a (nat (ty * W + tx)) \<and> Q a"
    then obtain x y where a: "(x, y) \<in> set pixels" and h: "hit (x, y) (nat (ty * W + tx))"
      and q: "Q (x, y)" by auto
    from h obtain ty' tx' where ins: "inside (x, y)"
      and r: "snd (c0 x y) \<le> ty'" "ty' \<le> snd (c1 x y)" "fst (c0 x y) \<le> tx'" "tx' \<le> fst (c1 x y)"
      and e: "nat (ty * W + tx) = nat (ty' * W + tx')"
      unfolding hit_def by auto
    from ins r have b: "0 \<le> tx'" "tx' < W" "0 \<le> ty'" "ty' < H"
      unfolding inside_def by simp_all
    have "0 \<le> ty * W" "0 \<le> ty' * W"
      using t b other by simp_all
    with t b have "0 \<le> ty * W + tx" "0 \<le> ty' * W + tx'" by simp_all
    with e have "ty * W + tx = ty' * W + tx'" by (simp add: nat_eq_iff)
    with row_major_inj [of tx W tx' ty ty'] t b have "tx = tx' \<and> ty = ty'" by simp
    with a ins r q show "\<exists>x y. written x y tx ty \<and> Q (x, y)"
      unfolding written_def inside_def pixels_set by auto
  next
    assume "\<exists>x y. written x y tx ty \<and> Q (x, y)"
    then obtain x y where w: "written x y tx ty" and q: "Q (x, y)" by blast
    then have "(x, y) \<in> set pixels" "hit (x, y) (nat (ty * W + tx))"
      unfolding written_def pixels_set hit_def inside_def by auto
    with q show "\<exists>a \<in> set pixels. hit a (nat (ty * W + tx)) \<and> Q a" by blast
  qed
  have low: "((\<forall>x y. \<not> written x y tx ty) \<longrightarrow> res ! nat (ty * W + tx) = 0)
           \<and> ((\<exists>x y. written x y tx ty) \<longrightarrow>
                (\<exists>x y. written x y tx ty
                   \<and> res ! nat (ty * W + tx) =
                       static_cast_uint16 (real (unat (raw x y)) * (scale / 0.001))))"
    if t: "0 \<le> tx \<and> tx < W \<and> 0 \<le> ty \<and> ty < H" for tx ty
  proof -
    from t have t': "0 \<le> tx" "tx < W" "0 \<le> ty" "ty < H" by simp_all
    let ?k = "nat (ty * W + tx)"
    have "?k < nat (H * W)" by (rule index [OF t'])
    with out init_len have k: "?k < length init" by arith
    note h0 = hit_iff [OF t', of "\<lambda>a. True", simplified]
    note h1 = hit_iff [OF t', of "\<lambda>a. res ! ?k = val a"]
    from fw k have
      none: "(\<forall>a \<in> set pixels. \<not> hit a ?k) \<longrightarrow> res ! ?k = init ! ?k"
      and some: "(\<exists>a \<in> set pixels. hit a ?k) \<longrightarrow> (\<exists>a \<in> set pixels. hit a ?k \<and> res ! ?k = val a)"
      by simp_all
    have "(\<forall>x y. \<not> written x y tx ty) \<longrightarrow> res ! ?k = 0"
      using none h0 init_low [OF index [OF t']] by auto
    moreover have "(\<exists>x y. written x y tx ty) \<longrightarrow>
                (\<exists>x y. written x y tx ty
                   \<and> res ! ?k = static_cast_uint16 (real (unat (raw x y)) * (scale / 0.001)))"
      using some h0 h1 by (auto simp: val_def)
    ultimately show ?thesis by blast
  qed
  have high: "res ! k = out_vec ! k" if k: "nat (H * W) \<le> k \<and> k < length out_vec" for k
  proof -
    have "\<not> hit a k" for a
    proof
      assume "hit a k"
      then obtain ty' tx' where ins: "inside a"
        and r: "snd (c0 (fst a) (snd a)) \<le> ty'" "ty' \<le> snd (c1 (fst a) (snd a))"
               "fst (c0 (fst a) (snd a)) \<le> tx'" "tx' \<le> fst (c1 (fst a) (snd a))"
        and e: "k = nat (ty' * W + tx')"
        unfolding hit_def by auto
      from ins r have b: "0 \<le> tx'" "tx' < W" "0 \<le> ty'" "ty' < H"
        unfolding inside_def by (simp_all add: case_prod_beta)
      have "nat (ty' * W + tx') < nat (H * W)" by (rule index [OF b])
      with e k show False by arith
    qed
    with fw k init_len have "res ! k = init ! k" by simp
    with init_high k show ?thesis by simp
  qed
  from fw init_len have "length res = length out_vec" by simp
  with result low high show ?thesis by blast
qed

text \<open>
  Where the corners of the code and of the specification agree:
  \<^verbatim>\<open>static_cast<int>(u + 0.5f)\<close> is the nearest integer to \<open>u\<close> as long as \<open>u\<close> is at
  least \<open>-0.5\<close>.  Below that the conversion, which drops the fraction toward zero, gives
  one more than the nearest integer (unless \<open>u + 0.5\<close> is itself an integer).
\<close>

lemma static_cast_int_round: "- (1 / 2) \<le> u \<Longrightarrow> static_cast_int (u + 1 / 2) = round u"
  by (simp add: static_cast_int_def round_def)

lemma other_corner_nearest:
  assumes "- (1 / 2) \<le> fst (rs2_project_point_to_pixel rs other_intrin
             (rs2_transform_point_to_point rs ext
                (rs2_deproject_pixel_to_point rs from_intrin from_pixel depth)))"
      and "- (1 / 2) \<le> snd (rs2_project_point_to_pixel rs other_intrin
             (rs2_transform_point_to_point rs ext
                (rs2_deproject_pixel_to_point rs from_intrin from_pixel depth)))"
  shows "other_corner rs from_intrin other_intrin ext from_pixel depth =
         spec_nearest_corner rs from_intrin other_intrin ext from_pixel depth"
  using assms
  by (simp add: other_corner_def spec_nearest_corner_def Let_def static_cast_int_round)

lemmas align_eval = other_corner_def pinhole_def sample_intrinsics_def sample_extrinsics_def
  static_cast_int_def static_cast_uint16_def Let_def

text \<open>
  C1.  The write-set rule of \<^verbatim>\<open>alignFrame\<close> says that a source pixel whose
  projected bounding rectangle, the projected corners rounded to the nearest integer,
  falls outside the target resolution writes no target pixel.  The code rounds with
  \<^verbatim>\<open>static_cast<int>(other_pixel[k] + 0.5f)\<close>, which is the nearest integer only from
  \<open>-0.5\<close> upward, and then tests \<^verbatim>\<open>other_x0 < 0 || other_y0 < 0\<close>: a corner
  projected between \<open>-1.5\<close> and \<open>-0.5\<close> becomes 0 and passes the test.

  A depth frame of two pixels in one row, raw depths 1000 and 0, depth unit one
  millimetre, both cameras with focal length 1 and principal point 0, the other
  camera translated by \<open>(-1.9, 0, 1)\<close>: the corners of the source pixel \<open>(0, 0)\<close>
  project to the columns \<open>-1.2\<close> and \<open>-0.7\<close> and the rows \<open>-0.25\<close> and \<open>0.25\<close>.
  Rounded to the nearest integer both corners are \<open>(-1, 0)\<close>, a rectangle of one pixel
  left of the image of two columns; the code computes \<open>(0, 0)\<close> for both corners and
  writes the depth 1000 into the target pixel \<open>(0, 0)\<close>.  With the translation
  \<open>(3.9, 0, 1)\<close> the corners project to the columns \<open>1.7\<close> and \<open>2.2\<close>, both rounded
  to 2 by the specification and by the code alike: on that side of the image the code
  skips the pixel and the output stays blank.
\<close>

theorem alignFrame_negative_corner_written:
  "spec_nearest_corner pinhole (sample_intrinsics 2 1) (sample_intrinsics 2 1)
       (sample_extrinsics (- (19 / 10))) (real_of_int 0 - 0.5, real_of_int 0 - 0.5)
       (1 / 1000 * real (unat (1000 :: 16 word))) = (- 1, 0)
   \<and> spec_nearest_corner pinhole (sample_intrinsics 2 1) (sample_intrinsics 2 1)
       (sample_extrinsics (- (19 / 10))) (real_of_int 0 + 0.5, real_of_int 0 + 0.5)
       (1 / 1000 * real (unat (1000 :: 16 word))) = (- 1, 0)
   \<and> other_corner pinhole (sample_intrinsics 2 1) (sample_intrinsics 2 1)
       (sample_extrinsics (- (19 / 10))) (real_of_int 0 - 0.5, real_of_int 0 - 0.5)
       (1 / 1000 * real (unat (1000 :: 16 word))) = (0, 0)
   \<and> other_corner pinhole (sample_intrinsics 2 1) (sample_intrinsics 2 1)
       (sample_extrinsics (- (19 / 10))) (real_of_int 0 + 0.5, real_of_int 0 + 0.5)
       (1 / 1000 * real (unat (1000 :: 16 word))) = (0, 0)
   \<and> alignFrame pinhole (1 / 1000) (sample_intrinsics 2 1) (sample_intrinsics 2 1)
       RS2_STREAM_DEPTH [1000, 0] 2 (sample_extrinsics (- (19 / 10))) [7, 7] = Some [1000, 0]
   \<and> spec_nearest_corner pinhole (sample_intrinsics 2 1) (sample_intrinsics 2 1)
       (sample_extrinsics (39 / 10)) (real_of_int 0 - 0.5, real_of_int 0 - 0.5)
       (1 / 1000 * real (unat (1000 :: 16 word))) = (2, 0)
   \<and> other_corner pinhole (sample_intrinsics 2 1) (sample_intrinsics 2 1)
       (sample_extrinsics (39 / 10)) (real_of_int 0 - 0.5, real_of_int 0 - 0.5)
       (1 / 1000 * real (unat (1000 :: 16 word))) = (2, 0)
   \<and> alignFrame pinhole (1 / 1000) (sample_intrinsics 2 1) (sample_intrinsics 2 1)
       RS2_STREAM_DEPTH [1000, 0] 2 (sample_extrinsics (39 / 10)) [7, 7] = Some [0, 0]"
proof -
  have r2: "replicate 2 (0 :: 16 word) = [0, 0]"
    by (simp add: numeral_2_eq_2)
  have rnd: "round (- (6 / 5) :: real) = - 1" "round (- (7 / 10) :: real) = - 1"
            "round (- (1 / 4) :: real) = 0" "round (1 / 4 :: real) = 0"
            "round (17 / 10 :: real) = 2"
    by (simp_all add: round_def)
  have cl: "\<lceil>- (1 / 5) :: real\<rceil> = 0" "\<lceil>- (7 / 10) :: real\<rceil> = 0"
    by (rule ceiling_unique; simp)+
  have n0: "spec_nearest_corner pinhole (sample_intrinsics 2 1) (sample_intrinsics 2 1)
       (sample_extrinsics (- (19 / 10))) (real_of_int 0 - 0.5, real_of_int 0 - 0.5)
       (1 / 1000 * real (unat (1000 :: 16 word))) = (- 1, 0)"
    by (simp add: spec_nearest_corner_def align_eval rnd)
  have n1: "spec_nearest_corner pinhole (sample_intrinsics 2 1) (sample_intrinsics 2 1)
       (sample_extrinsics (- (19 / 10))) (real_of_int 0 + 0.5, real_of_int 0 + 0.5)
       (1 / 1000 * real (unat (1000 :: 16 word))) = (- 1, 0)"
    by (simp add: spec_nearest_corner_def align_eval rnd)
  have c0: "other_corner pinhole (sample_intrinsics 2 1) (sample_intrinsics 2 1)
       (sample_extrinsics (- (19 / 10))) (real_of_int 0 - 0.5, real_of_int 0 - 0.5)
       (1 / 1000 * real (unat (1000 :: 16 word))) = (0, 0)"
    by (simp add: align_eval cl)
  have c1: "other_corner pinhole (sample_intrinsics 2 1) (sample_intrinsics 2 1)
       (sample_extrinsics (- (19 / 10))) (real_of_int 0 + 0.5, real_of_int 0 + 0.5)
       (1 / 1000 * real (unat (1000 :: 16 word))) = (0, 0)"
    by (simp add: align_eval cl)
  have left: "alignFrame pinhole (1 / 1000) (sample_intrinsics 2 1) (sample_intrinsics 2 1)
       RS2_STREAM_DEPTH [1000, 0] 2 (sample_extrinsics (- (19 / 10))) [7, 7] = Some [1000, 0]"
    by (simp add: alignFrame_def alignFrame_rows_def align_row_def upto_rec1 memset_blank_def
          align_pixel_def write_rect_def align_eval r2 cl)
  have m0: "spec_nearest_corner pinhole (sample_intrinsics 2 1) (sample_intrinsics 2 1)
       (sample_extrinsics (39 / 10)) (real_of_int 0 - 0.5, real_of_int 0 - 0.5)
       (1 / 1000 * real (unat (1000 :: 16 word))) = (2, 0)"
    by (simp add: spec_nearest_corner_def align_eval rnd)
  have d0: "other_corner pinhole (sample_intrinsics 2 1) (sample_intrinsics 2 1)
       (sample_extrinsics (39 / 10)) (real_of_int 0 - 0.5, real_of_int 0 - 0.5)
       (1 / 1000 * real (unat (1000 :: 16 word))) = (2, 0)"
    by (simp add: align_eval)
  have right: "alignFrame pinhole (1 / 1000) (sample_intrinsics 2 1) (sample_intrinsics 2 1)
       RS2_STREAM_DEPTH [1000, 0] 2 (sample_extrinsics (39 / 10)) [7, 7] = Some [0, 0]"
    by (simp add: alignFrame_def alignFrame_rows_def align_row_def upto_rec1 memset_blank_def
          align_pixel_def write_rect_def align_eval r2)
  from n0 n1 c0 c1 left m0 d0 right show ?thesis
    by (simp only: simp_thms)
qed

subsection \<open>Health timer\<close>

text \<open>
  C7, as the code has it.  \<^verbatim>\<open>setHealthTimers\<close> creates the timer started exactly
  when the node has no device, due one timeout later, and not one-shot.  After its
  construction the node's timer is started when no device was found, or when a device
  was found and an image sensor was started; with a device and no image stream it
  stays stopped.  A frame dispatch makes the timer due one timeout after the dispatch
  and leaves it started or stopped as it was, so it is not due at any earlier time.
  A timer that is due runs \<^verbatim>\<open>resetNode\<close> once: the node is replaced by the next
  construction of the node; a timer that is not due leaves the node alone.
\<close>

theorem health_timer:
  "timer_started (depth_callback_timer (setHealthTimers now n)) = (\<not> dev n)
   \<and> timer_expiry (depth_callback_timer (setHealthTimers now n)) = now + depth_callback_timeout n
   \<and> \<not> timer_oneshot (depth_callback_timer (setHealthTimers now n))
   \<and> timer_started (depth_callback_timer (RealSenseNode env k)) =
       (\<not> env_device_found env \<or> env_image_profiles env)
   \<and> timer_expiry (depth_callback_timer (RealSenseNode env k)) = env_now env + env_timeout env
   \<and> timer_expiry (depth_callback_timer (frame_callback_timer now n)) =
       now + depth_callback_timeout n
   \<and> timer_started (depth_callback_timer (frame_callback_timer now n)) =
       timer_started (depth_callback_timer n)
   \<and> (later < now + depth_callback_timeout n \<longrightarrow>
       \<not> timer_due later (depth_callback_timer (frame_callback_timer now n)))
   \<and> (timer_due (env_now env) (depth_callback_timer n) \<longrightarrow>
       timer_event env n = RealSenseNode env (Suc (instance_number n))
       \<and> instance_number (timer_event env n) = Suc (instance_number n))
   \<and> (\<not> timer_due (env_now env) (depth_callback_timer n) \<longrightarrow> timer_event env n = n)"
  by (simp add: setHealthTimers_def createTimer_def RealSenseNode_def timer_start_def
        frame_callback_timer_def timer_setPeriod_def timer_due_def timer_event_def
        reset_this_def resetNode_def Let_def)

text \<open>
  A node constructed at time 0 with a timeout of 30 seconds and a streaming device; a
  frame is dispatched at time 10.  At time 39 the timer is not due and the node stays;
  at time 40 it is due and the node is constructed again, this time without a device,
  so that the new timer is started and due at time 70.
\<close>

theorem health_timer_witness:
  "timer_event \<lparr>env_now = 39, env_timeout = 30, env_device_found = False, env_image_profiles = False\<rparr>
     (frame_callback_timer 10
        (RealSenseNode
           \<lparr>env_now = 0, env_timeout = 30, env_device_found = True, env_image_profiles = True\<rparr> 0))
   = frame_callback_timer 10
        (RealSenseNode
           \<lparr>env_now = 0, env_timeout = 30, env_device_found = True, env_image_profiles = True\<rparr> 0)
   \<and> timer_event \<lparr>env_now = 40, env_timeout = 30, env_device_found = False, env_image_profiles = False\<rparr>
     (frame_callback_timer 10
        (RealSenseNode
           \<lparr>env_now = 0, env_timeout = 30, env_device_found = True, env_image_profiles = True\<rparr> 0))
   = \<lparr>dev = False, depth_callback_timeout = 30,
      depth_callback_timer =
        \<lparr>timer_period = 30, timer_oneshot = False, timer_started = True, timer_expiry = 70\<rparr>,
      instance_number = 1\<rparr>"
  using health_timer
    [where n = "frame_callback_timer 10 (RealSenseNode
           \<lparr>env_now = 0, env_timeout = 30, env_device_found = True, env_image_profiles = True\<rparr> 0)"
       and env = "\<lparr>env_now = 39, env_timeout = 30, env_device_found = False,
                   env_image_profiles = False\<rparr>"]
    health_timer
    [where n = "frame_callback_timer 10 (RealSenseNode
           \<lparr>env_now = 0, env_timeout = 30, env_device_found = True, env_image_profiles = True\<rparr> 0)"
       and env = "\<lparr>env_now = 40, env_timeout = 30, env_device_found = False,
                   env_image_profiles = False\<rparr>"]
  by (simp add: setHealthTimers_def createTimer_def RealSenseNode_def timer_start_def
        frame_callback_timer_def timer_setPeriod_def timer_due_def timer_event_def
        reset_this_def resetNode_def Let_def)

text \<open>
  C7 as it is written fails.  A node constructed with no device attached has its timer
  started, and the timer that \<^verbatim>\<open>setHealthTimers\<close> creates for a node with a device is
  stopped.
\<close>

theorem health_timer_counterexample:
  "timer_started (depth_callback_timer (RealSenseNode
      \<lparr>env_now = 0, env_timeout = 30, env_device_found = False, env_image_profiles = False\<rparr> 0))
   \<and> \<not> timer_started (depth_callback_timer (setHealthTimers 0
      \<lparr>dev = True, depth_callback_timeout = 30,
       depth_callback_timer =
         \<lparr>timer_period = 0, timer_oneshot = False, timer_started = False, timer_expiry = 0\<rparr>,
       instance_number = 0\<rparr>))"
  by (simp add: setHealthTimers_def createTimer_def RealSenseNode_def Let_def)

end
